theory Spec2Isabelle
  imports Main
begin

section \<open>The remoting client of PyAMF (pyamf/remoting/client/__init__.py)\<close>

text \<open>
  A shallow embedding of the Python 2 module \<^verbatim>\<open>pyamf.remoting.client\<close>: the proxies that
  capture a call, the \<^verbatim>\<open>RequestWrapper\<close> that holds one pending call, and the
  \<^verbatim>\<open>RemotingService\<close> that owns the queue, issues the request ids and drives the HTTP
  exchange. Every method that mutates the client returns the outcome together with the
  state it leaves behind, also when it raises: a caller that catches the exception goes
  on with that state.
\<close>

subsection \<open>Python values, objects and exceptions\<close>

text \<open>
  The values that travel as call arguments and response bodies. On this fragment
  Python's \<^verbatim>\<open>==\<close> is structural equality. A Python tuple is the list of its items.
\<close>

datatype pyval = PyNone | PyInt int | PyStr string | PyTuple "pyval list"

text \<open>
  The exceptions the module raises or lets through, each with its message. In Python
  \<^verbatim>\<open>KeyError\<close> is a subclass of \<^verbatim>\<open>LookupError\<close>; \<^verbatim>\<open>ValueError\<close> is not.
\<close>

datatype error =
    ValueError string
  | TypeError string
  | LookupError string
  | KeyError string
  | AttributeError string
  | RemotingError string

fun isinstance_LookupError :: "error \<Rightarrow> bool" where
  "isinstance_LookupError (LookupError m) = True"
| "isinstance_LookupError (KeyError m) = True"
| "isinstance_LookupError e = False"

fun isinstance_ValueError :: "error \<Rightarrow> bool" where
  "isinstance_ValueError (ValueError m) = True"
| "isinstance_ValueError e = False"

text \<open>The format \<^verbatim>\<open>'%d' % n\<close> of a Python integer: decimal digits, a minus sign first.\<close>

definition digit_char :: "nat \<Rightarrow> char" where
  "digit_char d = ''0123456789'' ! d"

fun digits :: "nat \<Rightarrow> string" where
  "digits n = (if n < 10 then [digit_char n] else digits (n div 10) @ [digit_char (n mod 10)])"

declare digits.simps [simp del]

definition fmt_d :: "int \<Rightarrow> string" where
  "fmt_d n = (if n < 0 then CHR ''-'' # digits (nat (- n)) else digits (nat n))"

text \<open>
  Objects have an identity, drawn from one allocator. The proxies are never mutated
  after construction, so a proxy is its identity together with its fields. The
  \<^verbatim>\<open>_gw\<close> field of a proxy is the one client of the model and is left implicit.
\<close>

type_synonym ref = nat

datatype ServiceProxy =
  ServiceProxy (sp_oid: ref) (sp_name: string) (sp_auto_execute: bool)

datatype ServiceMethodProxy =
  ServiceMethodProxy (smp_oid: ref) (smp_service: ServiceProxy) (smp_name: "string option")

text \<open>
  What \<^verbatim>\<open>addRequest\<close> and \<^verbatim>\<open>removeRequest\<close> receive as \<^verbatim>\<open>service\<close>: a reference to a
  \<^verbatim>\<open>RequestWrapper\<close> on the heap, a service proxy or a method proxy.
\<close>

datatype pyobj = Wrapper ref | Proxy ServiceProxy | Method ServiceMethodProxy

text \<open>
  None of the three classes defines \<^verbatim>\<open>__eq__\<close>, so \<^verbatim>\<open>a == b\<close> is identity: the same
  class and the same object.
\<close>

fun py_eq :: "pyobj \<Rightarrow> pyobj \<Rightarrow> bool" where
  "py_eq (Wrapper a) (Wrapper b) = (a = b)"
| "py_eq (Proxy p) (Proxy q) = (sp_oid p = sp_oid q)"
| "py_eq (Method p) (Method q) = (smp_oid p = smp_oid q)"
| "py_eq a b = False"

subsection \<open>The collaborators: envelope, codec, HTTP\<close>

text \<open>
  Modelled from the spec: \<^verbatim>\<open>pyamf.remoting\<close> (Envelope, Request, Response, encode,
  decode, CONTENT_TYPE, RemotingError) is not under src/. An envelope carries the protocol
  version, the client type and a keyed set of bodies; it supports assignment and lookup by
  request id and iteration over (id, body) pairs.
\<close>

record Request =
  target :: string
  req_body :: "pyval list"

record Response =
  body :: pyval

record 'a Envelope =
  amfVersion :: int
  clientType :: int
  bodies :: "(string \<times> 'a) list"

text \<open>\<^verbatim>\<open>envelope[k] = v\<close>: the entry under \<open>k\<close> is replaced where it stands, or appended.\<close>

fun bodies_set :: "(string \<times> 'a) list \<Rightarrow> string \<Rightarrow> 'a \<Rightarrow> (string \<times> 'a) list" where
  "bodies_set [] k v = [(k, v)]"
| "bodies_set ((k', v') # kvs) k v =
     (if k' = k then (k, v) # kvs else (k', v') # bodies_set kvs k v)"

definition Envelope_setitem :: "'a Envelope \<Rightarrow> string \<Rightarrow> 'a \<Rightarrow> 'a Envelope" where
  "Envelope_setitem e k v = e\<lparr>bodies := bodies_set (bodies e) k v\<rparr>"

text \<open>\<^verbatim>\<open>envelope[k]\<close>: the body under \<open>k\<close>, a \<^verbatim>\<open>KeyError\<close> when there is none.\<close>

definition Envelope_getitem :: "'a Envelope \<Rightarrow> string \<Rightarrow> error + 'a" where
  "Envelope_getitem e k =
     (case map_of (bodies e) k of None \<Rightarrow> Inl (KeyError k) | Some v \<Rightarrow> Inr v)"

text \<open>
  Modelled from the spec: the codec of \<^verbatim>\<open>pyamf.remoting\<close>, taken as a parameter.
  \<open>encode\<close> stands for \<^verbatim>\<open>remoting.encode(envelope).getvalue()\<close>, the bytes of the request;
  both directions may raise.
\<close>

record remoting =
  CONTENT_TYPE :: string
  encode :: "Request Envelope \<Rightarrow> error + string"
  decode :: "string \<Rightarrow> error + Response Envelope"

text \<open>
  The \<^verbatim>\<open>httplib\<close> response that \<^verbatim>\<open>connection.getresponse()\<close> hands back: the status, the
  header lookup (\<open>None\<close> for a header that is absent) and the body reader.
  \<open>read None\<close> is \<^verbatim>\<open>read()\<close>, to the end of the stream; \<open>read (Some a)\<close> is \<^verbatim>\<open>read(a)\<close>.
\<close>

record HTTPResponse =
  status :: int
  getheader :: "string \<Rightarrow> string option"
  read :: "string option \<Rightarrow> string"

text \<open>
  The \<^verbatim>\<open>httplib\<close> connection: \<^verbatim>\<open>HTTPConnection(host, port)\<close> or \<^verbatim>\<open>HTTPSConnection(host, port)\<close>,
  and the requests sent on it so far as (method, url, body), oldest first.
\<close>

record HTTPConnection =
  conn_secure :: bool
  conn_host :: "string option"
  conn_port :: int
  conn_sent :: "(string \<times> string \<times> string) list"

definition conn_request :: "HTTPConnection \<Rightarrow> string \<Rightarrow> string \<Rightarrow> string \<Rightarrow> HTTPConnection" where
  "conn_request c method u b = c\<lparr>conn_sent := conn_sent c @ [(method, u, b)]\<rparr>"

text \<open>
  The result of \<^verbatim>\<open>urlparse.urlparse(url)\<close>: the 6-tuple, which from Python 2.5 on also has
  the attributes \<^verbatim>\<open>hostname\<close> and \<^verbatim>\<open>port\<close> (\<open>ParseResult\<close>); before, it is a plain tuple
  (\<open>ParseTuple\<close>).
\<close>

record urltuple =
  scheme :: string
  netloc :: string
  path :: string
  params :: string
  query :: string
  fragment :: string

datatype parsed_url =
    ParseResult urltuple "string option" "int option"
  | ParseTuple urltuple

fun url_tuple :: "parsed_url \<Rightarrow> urltuple" where
  "url_tuple (ParseResult t h p) = t"
| "url_tuple (ParseTuple t) = t"

text \<open>
  \<^verbatim>\<open>urlparse.urlunparse\<close> and \<^verbatim>\<open>urlparse.urlunsplit\<close> of the Python 2 standard library.
  \<open>uses_netloc\<close> is the module's list of schemes; it is consulted for a non-empty scheme only.
\<close>

definition uses_netloc :: "string list" where
  "uses_netloc = [''ftp'', ''http'', ''gopher'', ''nntp'', ''telnet'', ''imap'', ''wais'',
     ''file'', ''mms'', ''https'', ''shttp'', ''snews'', ''prospero'', ''rtsp'', ''rtspu'',
     ''rsync'', '''', ''svn'', ''svn+ssh'', ''sftp'']"

definition urlunsplit :: "string \<Rightarrow> string \<Rightarrow> string \<Rightarrow> string \<Rightarrow> string \<Rightarrow> string" where
  "urlunsplit sch nl u q f =
     (let u1 = (if nl \<noteq> [] \<or> (sch \<noteq> [] \<and> sch \<in> set uses_netloc \<and> take 2 u \<noteq> ''//'')
                then ''//'' @ nl @ (if u \<noteq> [] \<and> take 1 u \<noteq> ''/'' then ''/'' @ u else u)
                else u);
          u2 = (if sch \<noteq> [] then sch @ '':'' @ u1 else u1);
          u3 = (if q \<noteq> [] then u2 @ ''?'' @ q else u2)
      in if f \<noteq> [] then u3 @ ''#'' @ f else u3)"

definition urlunparse :: "string \<Rightarrow> string \<Rightarrow> string \<Rightarrow> string \<Rightarrow> string \<Rightarrow> string \<Rightarrow> string" where
  "urlunparse sch nl u ps q f =
     urlunsplit sch nl (if ps \<noteq> [] then u @ '';'' @ ps else u) q f"

text \<open>
  \<^verbatim>\<open>s.rsplit(':', 1)\<close> for a string that holds a colon: the text before the last colon and
  the text after it.
\<close>

definition rsplit_colon :: "string \<Rightarrow> string \<times> string" where
  "rsplit_colon s =
     (let after = rev (takeWhile (\<lambda>c. c \<noteq> CHR '':'') (rev s))
      in (take (length s - length after - 1) s, after))"

text \<open>
  \<^verbatim>\<open>int(s)\<close> for a byte string: optional blanks around an optional sign and at least one
  decimal digit; a \<^verbatim>\<open>ValueError\<close> otherwise.
\<close>

definition is_space :: "char \<Rightarrow> bool" where
  "is_space c = (c \<in> set [CHR '' '', CHR 0x09, CHR 0x0A, CHR 0x0B, CHR 0x0C, CHR 0x0D])"

definition is_digit :: "char \<Rightarrow> bool" where
  "is_digit c = ((48::nat) \<le> of_char c \<and> (of_char c :: nat) \<le> 57)"

definition strip :: "string \<Rightarrow> string" where
  "strip s = rev (dropWhile is_space (rev (dropWhile is_space s)))"

definition digits_value :: "string \<Rightarrow> nat" where
  "digits_value ds = foldl (\<lambda>acc c. 10 * acc + ((of_char c :: nat) - 48)) 0 ds"

definition py_int :: "string \<Rightarrow> error + int" where
  "py_int s =
     (let t = strip s;
          neg = (take 1 t = ''-'');
          ds = (if take 1 t = ''-'' \<or> take 1 t = ''+'' then drop 1 t else t)
      in if ds \<noteq> [] \<and> list_all is_digit ds
         then Inr (if neg then - int (digits_value ds) else int (digits_value ds))
         else Inl (ValueError (''invalid literal for int() with base 10: '' @ s)))"

subsection \<open>ServiceMethodProxy and ServiceProxy: names\<close>

text \<open>\<^verbatim>\<open>ServiceProxy.__str__\<close>: the name of the service.\<close>

definition ServiceProxy_str :: "ServiceProxy \<Rightarrow> string" where
  "ServiceProxy_str sp = sp_name sp"

text \<open>\<^verbatim>\<open>ServiceMethodProxy.__str__\<close>: the service name, then a dot and the method name if there is one.\<close>

definition ServiceMethodProxy_str :: "ServiceMethodProxy \<Rightarrow> string" where
  "ServiceMethodProxy_str mp =
     (let service_name = ServiceProxy_str (smp_service mp)
      in case smp_name mp of
           Some n \<Rightarrow> service_name @ ''.'' @ n
         | None \<Rightarrow> service_name)"

subsection \<open>RequestWrapper\<close>

text \<open>
  The fields of a \<^verbatim>\<open>RequestWrapper\<close>. \<^verbatim>\<open>__init__\<close> sets \<^verbatim>\<open>id\<close>, \<^verbatim>\<open>service\<close> and \<^verbatim>\<open>args\<close>
  (and \<^verbatim>\<open>gw\<close>, the one client); the attributes \<^verbatim>\<open>response\<close> and \<^verbatim>\<open>_result\<close> do not exist
  until they are assigned, which is \<open>None\<close> here.
\<close>

record RequestWrapper =
  rw_id :: string
  rw_service :: pyobj
  rw_args :: "pyval list"
  rw_response :: "Response option"
  rw_result :: "pyval option"

definition RequestWrapper_init :: "string \<Rightarrow> pyobj \<Rightarrow> pyval list \<Rightarrow> RequestWrapper" where
  "RequestWrapper_init ident service args =
     \<lparr>rw_id = ident, rw_service = service, rw_args = args, rw_response = None, rw_result = None\<rparr>"

definition set_result :: "RequestWrapper \<Rightarrow> pyval \<Rightarrow> RequestWrapper" where
  "set_result w r = w\<lparr>rw_result := Some r\<rparr>"

text \<open>The error of \<^verbatim>\<open>_get_result\<close>; \<open>CHR 0x27\<close> is the quote of its message.\<close>

definition no_result :: error where
  "no_result = AttributeError
     (CHR 0x27 # ''RequestWrapper'' @ CHR 0x27 # '' object has no attribute '' @
      CHR 0x27 # ''result'' @ [CHR 0x27])"

definition get_result :: "RequestWrapper \<Rightarrow> error + pyval" where
  "get_result w = (case rw_result w of None \<Rightarrow> Inl no_result | Some r \<Rightarrow> Inr r)"

definition setResponse :: "RequestWrapper \<Rightarrow> Response \<Rightarrow> RequestWrapper" where
  "setResponse w response =
     (let w1 = w\<lparr>rw_response := Some response\<rparr>
      in set_result w1 (body response))"

subsection \<open>RemotingService: the state\<close>

text \<open>
  The fields of the \<^verbatim>\<open>RemotingService\<close> instance, and with them the Python heap the
  client works on: \<open>heap\<close> holds the \<^verbatim>\<open>RequestWrapper\<close> objects by identity and
  \<open>next_ref\<close> is the identity of the next object created. \<open>requests\<close> is the list of
  references to the pending wrappers, in insertion order. The heap is total: what it
  holds at an identity that was never allocated is arbitrary, and no method reads it
  unless the caller passes such a reference.
\<close>

record world =
  url :: parsed_url
  requests :: "ref list"
  request_number :: int
  root_url :: string
  amf_version :: int
  client_type :: int
  connection :: HTTPConnection
  heap :: "ref \<Rightarrow> RequestWrapper"
  next_ref :: ref

text \<open>
  \<^verbatim>\<open>RemotingService.__init__\<close>, on the heap \<open>h\<close> and allocator \<open>n\<close> it is created in.
  \<open>u\<close> is \<^verbatim>\<open>urlparse.urlparse(url)\<close>. The first step computes the pair
  (hostname, port) of the \<^verbatim>\<open>hasattr(self.url, 'port')\<close> statement, where \<^verbatim>\<open>int(port)\<close>
  may raise.
\<close>

definition RemotingService_init ::
  "(ref \<Rightarrow> RequestWrapper) \<Rightarrow> ref \<Rightarrow> parsed_url \<Rightarrow> int \<Rightarrow> int \<Rightarrow> error + world" where
  "RemotingService_init h n u av ct =
     (let t = url_tuple u;
          root = urlunparse [] [] (path t) (params t) (query t) (fragment t);
          hp = (case u of
                  ParseResult _ hn p \<Rightarrow> Inr (None, p)
                | ParseTuple _ \<Rightarrow>
                    if CHR '':'' \<notin> set (netloc t) then Inr (None, None)
                    else (case py_int (snd (rsplit_colon (netloc t))) of
                            Inl e \<Rightarrow> Inl e
                          | Inr i \<Rightarrow> Inr (Some (fst (rsplit_colon (netloc t))), Some i)))
      in case hp of
           Inl e \<Rightarrow> Inl e
         | Inr (hostname0, port) \<Rightarrow>
             (let hostname = (case hostname0 of
                                None \<Rightarrow> (case u of ParseResult _ hn _ \<Rightarrow> hn | ParseTuple _ \<Rightarrow> None)
                              | Some x \<Rightarrow> Some x);
                  mk = (\<lambda>sec dflt.
                          \<lparr>url = u, requests = [], request_number = 1, root_url = root,
                           amf_version = av, client_type = ct,
                           connection = \<lparr>conn_secure = sec, conn_host = hostname,
                             conn_port = (case port of None \<Rightarrow> dflt | Some p \<Rightarrow> p),
                             conn_sent = []\<rparr>,
                           heap = h, next_ref = n\<rparr>)
              in if scheme t = ''http'' then Inr (mk False 80)
                 else if scheme t = ''https'' then Inr (mk True 443)
                 else Inl (ValueError ''Unknown scheme'')))"

subsection \<open>RemotingService: services and the request queue\<close>

definition getService :: "world \<Rightarrow> pyval \<Rightarrow> bool \<Rightarrow> (error + ServiceProxy) \<times> world" where
  "getService w name auto_execute =
     (case name of
        PyStr s \<Rightarrow> (Inr (ServiceProxy (next_ref w) s auto_execute), w\<lparr>next_ref := Suc (next_ref w)\<rparr>)
      | _ \<Rightarrow> (Inl (TypeError ''string type required''), w))"

text \<open>\<^verbatim>\<open>ServiceProxy.__getattr__\<close>: a new method proxy at every access.\<close>

definition ServiceProxy_getattr :: "world \<Rightarrow> ServiceProxy \<Rightarrow> string \<Rightarrow> ServiceMethodProxy \<times> world" where
  "ServiceProxy_getattr w sp name =
     (ServiceMethodProxy (next_ref w) sp (Some name), w\<lparr>next_ref := Suc (next_ref w)\<rparr>)"

definition getRequest :: "world \<Rightarrow> string \<Rightarrow> error + ref" where
  "getRequest w ident =
     (case find (\<lambda>r. rw_id (heap w r) = ident) (requests w) of
        Some r \<Rightarrow> Inr r
      | None \<Rightarrow> Inl (LookupError (''request '' @ ident @ '' not found'')))"

definition addRequest :: "world \<Rightarrow> pyobj \<Rightarrow> pyval list \<Rightarrow> ref \<times> world" where
  "addRequest w service args =
     (let r = next_ref w;
          wrapper = RequestWrapper_init (''/'' @ fmt_d (request_number w)) service args
      in (r, w\<lparr>heap := (heap w)(r := wrapper), next_ref := Suc r,
               request_number := request_number w + 1,
               requests := requests w @ [r]\<rparr>))"

text \<open>
  \<^verbatim>\<open>xs.index(x)\<close> raises \<^verbatim>\<open>ValueError\<close> when \<open>x\<close> is not in the list; \<^verbatim>\<open>del xs[i]\<close>
  drops the item at \<open>i\<close>.
\<close>

fun list_index :: "'a list \<Rightarrow> 'a \<Rightarrow> error + nat" where
  "list_index [] x = Inl (ValueError ''list.index(x): x not in list'')"
| "list_index (y # ys) x =
     (if y = x then Inr 0
      else case list_index ys x of Inl e \<Rightarrow> Inl e | Inr i \<Rightarrow> Inr (Suc i))"

definition list_del :: "'a list \<Rightarrow> nat \<Rightarrow> 'a list" where
  "list_del xs i = take i xs @ drop (Suc i) xs"

definition del_request :: "world \<Rightarrow> ref \<Rightarrow> (error + unit) \<times> world" where
  "del_request w r =
     (case list_index (requests w) r of
        Inl e \<Rightarrow> (Inl e, w)
      | Inr i \<Rightarrow> (Inr (), w\<lparr>requests := list_del (requests w) i\<rparr>))"

definition removeRequest :: "world \<Rightarrow> pyobj \<Rightarrow> pyval list \<Rightarrow> (error + unit) \<times> world" where
  "removeRequest w service args =
     (case service of
        Wrapper r \<Rightarrow> del_request w r
      | _ \<Rightarrow>
         (case find (\<lambda>r. py_eq (rw_service (heap w r)) service \<and> rw_args (heap w r) = args)
                 (requests w) of
            Some r \<Rightarrow> del_request w r
          | None \<Rightarrow> (Inl (LookupError ''request not found''), w)))"

text \<open>\<^verbatim>\<open>str(service)\<close> for the object stored in a wrapper.\<close>

fun py_str :: "world \<Rightarrow> pyobj \<Rightarrow> string" where
  "py_str w (Wrapper r) = rw_id (heap w r)"
| "py_str w (Proxy p) = ServiceProxy_str p"
| "py_str w (Method mp) = ServiceMethodProxy_str mp"

definition getAMFRequest :: "world \<Rightarrow> ref list \<Rightarrow> Request Envelope" where
  "getAMFRequest w rs =
     foldl (\<lambda>envelope r.
              Envelope_setitem envelope (rw_id (heap w r))
                \<lparr>target = py_str w (rw_service (heap w r)), req_body = rw_args (heap w r)\<rparr>)
           \<lparr>amfVersion = amf_version w, clientType = client_type w, bodies = []\<rparr> rs"

subsection \<open>RemotingService: the exchange\<close>

text \<open>\<^verbatim>\<open>_getResponse\<close>, on the response that \<^verbatim>\<open>self.connection.getresponse()\<close> returned.\<close>

definition getResponse :: "remoting \<Rightarrow> HTTPResponse \<Rightarrow> error + Response Envelope" where
  "getResponse m http_response =
     (if status http_response \<noteq> 200
      then Inl (RemotingError (''HTTP Gateway reported status '' @ fmt_d (status http_response)))
      else let content_type = getheader http_response ''Content-Type''
      in if content_type \<noteq> Some (CONTENT_TYPE m)
         then Inl (RemotingError ''Incorrect MIME type received.'')
         else let content_length = getheader http_response ''Content-Length'';
                  bytes = (case content_length of
                             None \<Rightarrow> read http_response None
                           | Some l \<Rightarrow> read http_response (Some l))
              in decode m bytes)"

definition execute_single :: "remoting \<Rightarrow> world \<Rightarrow> ref \<Rightarrow> HTTPResponse \<Rightarrow> (error + Response) \<times> world" where
  "execute_single m w request http_response =
     (case encode m (getAMFRequest w [request]) of
        Inl e \<Rightarrow> (Inl e, w)
      | Inr b \<Rightarrow>
         (let w1 = w\<lparr>connection := conn_request (connection w) ''POST'' (root_url w) b\<rparr>
          in case getResponse m http_response of
               Inl e \<Rightarrow> (Inl e, w1)
             | Inr envelope \<Rightarrow>
                (case removeRequest w1 (Wrapper request) [] of
                   (Inl e, w2) \<Rightarrow> (Inl e, w2)
                 | (Inr u, w2) \<Rightarrow> (Envelope_getitem envelope (rw_id (heap w2 request)), w2))))"

text \<open>The loop of \<^verbatim>\<open>execute\<close> over the (id, response) pairs of the decoded envelope.\<close>

fun execute_responses :: "world \<Rightarrow> (string \<times> Response) list \<Rightarrow> (error + unit) \<times> world" where
  "execute_responses w [] = (Inr (), w)"
| "execute_responses w ((ident, response) # rest) =
     (case getRequest w ident of
        Inl e \<Rightarrow> (Inl e, w)
      | Inr request \<Rightarrow>
         (let w1 = w\<lparr>heap := (heap w)(request := setResponse (heap w request) response)\<rparr>
          in case removeRequest w1 (Wrapper request) [] of
               (Inl e, w2) \<Rightarrow> (Inl e, w2)
             | (Inr u, w2) \<Rightarrow> execute_responses w2 rest))"

definition execute :: "remoting \<Rightarrow> world \<Rightarrow> HTTPResponse \<Rightarrow> (error + unit) \<times> world" where
  "execute m w http_response =
     (case encode m (getAMFRequest w (requests w)) of
        Inl e \<Rightarrow> (Inl e, w)
      | Inr b \<Rightarrow>
         (let w1 = w\<lparr>connection := conn_request (connection w) ''POST'' (root_url w) b\<rparr>
          in case getResponse m http_response of
               Inl e \<Rightarrow> (Inl e, w1)
             | Inr envelope \<Rightarrow> execute_responses w1 (bodies envelope)))"

subsection \<open>ServiceProxy and ServiceMethodProxy: calls\<close>

text \<open>What a call through a proxy returns: the body of the response, or the pending wrapper.\<close>

datatype call_result = Body pyval | Pending ref

text \<open>
  \<^verbatim>\<open>ServiceProxy._call(method_proxy, args)\<close>: \<open>args\<close> is the tuple of the call, and it is
  passed to \<^verbatim>\<open>addRequest(service, *args)\<close> as one positional argument.
\<close>

definition ServiceProxy_call ::
  "remoting \<Rightarrow> world \<Rightarrow> ServiceProxy \<Rightarrow> ServiceMethodProxy \<Rightarrow> pyval list \<Rightarrow> HTTPResponse
     \<Rightarrow> (error + call_result) \<times> world" where
  "ServiceProxy_call m w sp method_proxy args http_response =
     (let (request, w1) = addRequest w (Method method_proxy) [PyTuple args]
      in if sp_auto_execute sp
         then (case execute_single m w1 request http_response of
                 (Inl e, w2) \<Rightarrow> (Inl e, w2)
               | (Inr response, w2) \<Rightarrow> (Inr (Body (body response)), w2))
         else (Inr (Pending request), w1))"

text \<open>\<^verbatim>\<open>ServiceMethodProxy.__call__(*args)\<close>.\<close>

definition ServiceMethodProxy_invoke ::
  "remoting \<Rightarrow> world \<Rightarrow> ServiceMethodProxy \<Rightarrow> pyval list \<Rightarrow> HTTPResponse
     \<Rightarrow> (error + call_result) \<times> world" where
  "ServiceMethodProxy_invoke m w mp args http_response =
     ServiceProxy_call m w (smp_service mp) mp args http_response"

text \<open>\<^verbatim>\<open>ServiceProxy.__call__(*args)\<close>: a call without a method name.\<close>

definition ServiceProxy_invoke ::
  "remoting \<Rightarrow> world \<Rightarrow> ServiceProxy \<Rightarrow> pyval list \<Rightarrow> HTTPResponse
     \<Rightarrow> (error + call_result) \<times> world" where
  "ServiceProxy_invoke m w sp args http_response =
     ServiceProxy_call m (w\<lparr>next_ref := Suc (next_ref w)\<rparr>) sp
       (ServiceMethodProxy (next_ref w) sp None) args http_response"

subsection \<open>Sequences of client operations\<close>

text \<open>
  The methods of the client a caller invokes one after the other. An operation that
  raises leaves the state it reached; the caller goes on from there. A call through a
  proxy is an \<^verbatim>\<open>addRequest\<close>, followed by \<^verbatim>\<open>execute_single\<close> when the proxy executes
  at once.
\<close>

datatype op =
    AddRequest pyobj "pyval list"
  | RemoveRequest pyobj "pyval list"
  | ExecuteSingle ref HTTPResponse
  | Execute HTTPResponse

datatype outcome = Registered ref | Removed | Answered Response | Executed

fun step :: "remoting \<Rightarrow> world \<Rightarrow> op \<Rightarrow> (error + outcome) \<times> world" where
  "step m w (AddRequest service args) =
     (let (r, w1) = addRequest w service args in (Inr (Registered r), w1))"
| "step m w (RemoveRequest service args) =
     (case removeRequest w service args of
        (Inl e, w1) \<Rightarrow> (Inl e, w1)
      | (Inr u, w1) \<Rightarrow> (Inr Removed, w1))"
| "step m w (ExecuteSingle request http_response) =
     (case execute_single m w request http_response of
        (Inl e, w1) \<Rightarrow> (Inl e, w1)
      | (Inr response, w1) \<Rightarrow> (Inr (Answered response), w1))"
| "step m w (Execute http_response) =
     (case execute m w http_response of
        (Inl e, w1) \<Rightarrow> (Inl e, w1)
      | (Inr u, w1) \<Rightarrow> (Inr Executed, w1))"

text \<open>The id of the wrapper an operation registered, if it registered one.\<close>

definition issued :: "world \<Rightarrow> error + outcome \<Rightarrow> string list" where
  "issued w res = (case res of Inr (Registered r) \<Rightarrow> [rw_id (heap w r)] | _ \<Rightarrow> [])"

text \<open>Running a sequence: the ids issued, in order, and the final state.\<close>

fun run :: "remoting \<Rightarrow> world \<Rightarrow> op list \<Rightarrow> string list \<times> world" where
  "run m w [] = ([], w)"
| "run m w (x # xs) =
     (let (res, w1) = step m w x;
          (ids, w2) = run m w1 xs
      in (issued w1 res @ ids, w2))"

fun is_AddRequest :: "op \<Rightarrow> bool" where
  "is_AddRequest (AddRequest service args) = True"
| "is_AddRequest x = False"

subsection \<open>The ids in the queue\<close>

definition queue_ids :: "world \<Rightarrow> string list" where
  "queue_ids w = map (\<lambda>r. rw_id (heap w r)) (requests w)"

text \<open>
  What holds of every state the client reaches: the counter is positive, every queued
  wrapper was allocated and carries an id the counter has already passed, and no two
  queued wrappers share an id.
\<close>

definition invar :: "world \<Rightarrow> bool" where
  "invar w =
     (0 < request_number w \<and> distinct (queue_ids w) \<and>
      (\<forall>r \<in> set (requests w).
         r < next_ref w \<and>
         (\<exists>k < nat (request_number w). rw_id (heap w r) = ''/'' @ fmt_d (int k))))"

subsection \<open>Values for the examples\<close>

text \<open>
  A heap of blank wrappers to start from, the parse of
  \<^verbatim>\<open>http://user:pw@example.com/gateway?x=1\<close>, and the client \<^verbatim>\<open>RemotingService.__init__\<close>
  builds from them.
\<close>

definition example_heap :: "ref \<Rightarrow> RequestWrapper" where
  "example_heap = (\<lambda>r. RequestWrapper_init [] (Wrapper r) [])"

definition example_url :: parsed_url where
  "example_url =
     ParseResult \<lparr>scheme = ''http'', netloc = ''user:pw@example.com'', path = ''/gateway'',
                  params = [], query = ''x=1'', fragment = []\<rparr> (Some ''example.com'') None"

definition example_client :: world where
  "example_client =
     \<lparr>url = example_url, requests = [], request_number = 1, root_url = ''/gateway?x=1'',
      amf_version = 0, client_type = 0,
      connection = \<lparr>conn_secure = False, conn_host = Some ''example.com'', conn_port = 80,
                     conn_sent = []\<rparr>,
      heap = example_heap, next_ref = 0\<rparr>"

text \<open>
  A stubbed codec: the request bytes are the ids of the envelope, one per line, and
  every response decodes to the envelope with the bodies \<open>bs\<close>.
\<close>

definition stub_remoting :: "(string \<times> Response) list \<Rightarrow> remoting" where
  "stub_remoting bs =
     \<lparr>CONTENT_TYPE = ''application/x-amf'',
      encode = (\<lambda>e. Inr (concat (map (\<lambda>kv. fst kv @ [CHR 0x0A]) (bodies e)))),
      decode = (\<lambda>b. Inr \<lparr>amfVersion = 0, clientType = 0, bodies = bs\<rparr>)\<rparr>"

text \<open>
  A stubbed HTTP response with the status \<open>st\<close>, the headers \<open>hdrs\<close> and the bytes \<open>b\<close>
  on the stream; \<^verbatim>\<open>read(a)\<close> returns the first \<open>a\<close> bytes.
\<close>

definition stub_response :: "int \<Rightarrow> (string \<times> string) list \<Rightarrow> string \<Rightarrow> HTTPResponse" where
  "stub_response st hdrs b =
     \<lparr>status = st, getheader = map_of hdrs,
      read = (\<lambda>a. case a of
                None \<Rightarrow> b
              | Some l \<Rightarrow> (case py_int l of Inr n \<Rightarrow> take (nat n) b | Inl e \<Rightarrow> b))\<rparr>"

definition amf_ok :: "string \<Rightarrow> HTTPResponse" where
  "amf_ok b = stub_response 200 [(''Content-Type'', ''application/x-amf'')] b"

definition example_tuple :: "string \<Rightarrow> urltuple" where
  "example_tuple sch =
     \<lparr>scheme = sch, netloc = ''example.com'', path = ''/gateway'', params = [], query = [],
      fragment = []\<rparr>"

text \<open>
  A deferred service proxy as \<^verbatim>\<open>getService("math", False)\<close> returns it on the example
  client, the state after that call, and the state after \<^verbatim>\<open>addRequest(math, 1)\<close>: the
  wrapper is the object 1 and its id is \<^verbatim>\<open>"/1"\<close>.
\<close>

definition example_math :: ServiceProxy where
  "example_math = ServiceProxy 0 ''math'' False"

definition example_started :: world where
  "example_started = snd (getService example_client (PyStr ''math'') False)"

definition example_pending :: world where
  "example_pending = snd (addRequest example_started (Proxy example_math) [PyInt 1])"

text \<open>The example client after two \<^verbatim>\<open>addRequest\<close> calls: the wrappers 0 and 1, ids \<^verbatim>\<open>"/1"\<close> and \<^verbatim>\<open>"/2"\<close>.\<close>

definition example_two :: world where
  "example_two = snd (run (stub_remoting []) example_client
       [AddRequest (Proxy example_math) [PyInt 1], AddRequest (Proxy example_math) [PyInt 2]])"

text \<open>
  The deferred call \<^verbatim>\<open>math.add(1, 2)\<close> on the example client: the method proxy that
  \<^verbatim>\<open>math.add\<close> creates (object 1), the state after creating it and the state after the call,
  whose wrapper is the object 2. And a second deferred call, \<^verbatim>\<open>math.sub(5)\<close>, made while
  the wrapper 1 of \<open>example_pending\<close> is queued: its method proxy is the object 2 and its
  wrapper the object 3.
\<close>

definition example_add :: ServiceMethodProxy where
  "example_add = ServiceMethodProxy 1 example_math (Some ''add'')"

definition example_bound :: world where
  "example_bound = snd (ServiceProxy_getattr example_started example_math ''add'')"

definition example_called :: world where
  "example_called = snd (ServiceMethodProxy_invoke (stub_remoting []) example_bound example_add
                           [PyInt 1, PyInt 2] (amf_ok []))"

definition example_sub :: ServiceMethodProxy where
  "example_sub = ServiceMethodProxy 2 example_math (Some ''sub'')"

definition example_pending_called :: world where
  "example_pending_called =
     snd (ServiceMethodProxy_invoke (stub_remoting [])
            (snd (ServiceProxy_getattr example_pending example_math ''sub'')) example_sub
            [PyInt 5] (amf_ok []))"

section \<open>Properties\<close>

subsection \<open>Evaluating the examples\<close>

lemma fmt_d_small [simp]:
  "fmt_d 1 = ''1''" "fmt_d 2 = ''2''" "fmt_d 3 = ''3''"
  by (simp_all add: fmt_d_def digits.simps digit_char_def)

lemma py_int_3: "py_int ''3'' = Inr 3"
  by (simp add: py_int_def strip_def is_space_def is_digit_def digits_value_def)

lemma fmt_d_500: "fmt_d 500 = ''500''"
  by (simp add: fmt_d_def digits.simps digit_char_def)

lemmas client_defs =
  addRequest_def removeRequest_def del_request_def list_del_def getRequest_def
  getAMFRequest_def Envelope_setitem_def Envelope_getitem_def getResponse_def
  execute_single_def execute_def conn_request_def RequestWrapper_init_def setResponse_def
  set_result_def getService_def ServiceProxy_getattr_def ServiceProxy_call_def
  ServiceMethodProxy_invoke_def ServiceProxy_invoke_def ServiceProxy_str_def
  ServiceMethodProxy_str_def

lemmas example_defs =
  example_client_def example_heap_def stub_remoting_def stub_response_def amf_ok_def

lemma example_client_init:
  "RemotingService_init example_heap 0 example_url 0 0 = Inr example_client"
  by (simp add: RemotingService_init_def example_url_def example_client_def urlunparse_def
      urlunsplit_def Let_def)

lemma example_started_eval:
  "fst (getService example_client (PyStr ''math'') False) = Inr example_math"
  "example_started = example_client\<lparr>next_ref := 1\<rparr>"
  by (simp_all add: example_started_def getService_def example_math_def example_client_def)

lemma example_pending_eval:
  "example_pending = example_client
     \<lparr>requests := [1], request_number := 2,
      heap := example_heap(1 := \<lparr>rw_id = ''/1'', rw_service = Proxy example_math,
                rw_args = [PyInt 1], rw_response = None, rw_result = None\<rparr>),
      next_ref := 2\<rparr>"
  by (simp add: example_pending_def example_started_eval addRequest_def Let_def
      RequestWrapper_init_def example_client_def)

lemma example_two_eval:
  "example_two = example_client
     \<lparr>requests := [0, 1], request_number := 3,
      heap := example_heap
        (0 := \<lparr>rw_id = ''/1'', rw_service = Proxy example_math,
                rw_args = [PyInt 1], rw_response = None, rw_result = None\<rparr>,
         1 := \<lparr>rw_id = ''/2'', rw_service = Proxy example_math,
                rw_args = [PyInt 2], rw_response = None, rw_result = None\<rparr>),
      next_ref := 2\<rparr>"
  by (simp add: example_two_def addRequest_def Let_def RequestWrapper_init_def example_client_def)

lemma example_bound_eval:
  "ServiceProxy_getattr example_started example_math ''add'' = (example_add, example_bound)"
  "example_bound = example_client\<lparr>next_ref := 2\<rparr>"
  by (simp_all add: example_bound_def example_add_def ServiceProxy_getattr_def
      example_started_eval example_client_def)

lemma example_called_eval:
  "example_called = example_client
     \<lparr>requests := [2], request_number := 2,
      heap := example_heap(2 := \<lparr>rw_id = ''/1'', rw_service = Method example_add,
                rw_args = [PyTuple [PyInt 1, PyInt 2]], rw_response = None,
                rw_result = None\<rparr>),
      next_ref := 3\<rparr>"
  by (simp add: example_called_def example_bound_eval ServiceMethodProxy_invoke_def
      ServiceProxy_call_def example_add_def example_math_def addRequest_def Let_def
      RequestWrapper_init_def example_client_def)

subsection \<open>Lists, the queue and what each method leaves untouched\<close>

lemma list_index_remove1: "list_index xs x = Inr i \<Longrightarrow> list_del xs i = remove1 x xs"
  by (induction xs arbitrary: i) (auto simp: list_del_def split: if_splits sum.splits)

lemma list_index_Inr: "x \<in> set xs \<Longrightarrow> \<exists>i. list_index xs x = Inr i"
  by (induction xs) auto

lemma list_index_Inl: "x \<notin> set xs \<Longrightarrow> list_index xs x = Inl (ValueError ''list.index(x): x not in list'')"
  by (induction xs) auto

lemma del_request_in: "r \<in> set (requests w) \<Longrightarrow> del_request w r = (Inr (), w\<lparr>requests := remove1 r (requests w)\<rparr>)"
  using list_index_Inr[of r "requests w"] by (auto simp: del_request_def list_index_remove1)

lemma del_request_notin: "r \<notin> set (requests w) \<Longrightarrow> del_request w r = (Inl (ValueError ''list.index(x): x not in list''), w)"
  by (simp add: del_request_def list_index_Inl)

lemma del_request_frame [simp]:
  "request_number (snd (del_request w r)) = request_number w"
  "root_url (snd (del_request w r)) = root_url w"
  "heap (snd (del_request w r)) = heap w"
  "next_ref (snd (del_request w r)) = next_ref w"
  "connection (snd (del_request w r)) = connection w"
  by (auto simp: del_request_def split: sum.splits)

lemma removeRequest_frame [simp]:
  "request_number (snd (removeRequest w s a)) = request_number w"
  "root_url (snd (removeRequest w s a)) = root_url w"
  "heap (snd (removeRequest w s a)) = heap w"
  "next_ref (snd (removeRequest w s a)) = next_ref w"
  "connection (snd (removeRequest w s a)) = connection w"
  by (auto simp: removeRequest_def split: pyobj.splits option.splits)

lemma execute_single_frame [simp]:
  "request_number (snd (execute_single m w r h)) = request_number w"
  "root_url (snd (execute_single m w r h)) = root_url w"
  "heap (snd (execute_single m w r h)) = heap w"
  "next_ref (snd (execute_single m w r h)) = next_ref w"
  by (simp_all add: execute_single_def Let_def case_prod_beta split: sum.splits)

lemma getRequest_Inr: "getRequest w k = Inr r \<Longrightarrow> r \<in> set (requests w) \<and> rw_id (heap w r) = k"
  by (auto simp: getRequest_def find_Some_iff split: option.splits)

lemma removeRequest_Wrapper: "removeRequest w (Wrapper r) a = del_request w r"
  by (simp add: removeRequest_def)

lemma execute_responses_Cons:
  "execute_responses w ((k, resp) # rest) =
     (case getRequest w k of
        Inl e \<Rightarrow> (Inl e, w)
      | Inr r \<Rightarrow> execute_responses
          (w\<lparr>heap := (heap w)(r := setResponse (heap w r) resp),
             requests := remove1 r (requests w)\<rparr>) rest)"
  by (auto simp: removeRequest_Wrapper del_request_in dest!: getRequest_Inr split: sum.splits)

lemma execute_responses_frame [simp]:
  "request_number (snd (execute_responses w env)) = request_number w \<and>
   root_url (snd (execute_responses w env)) = root_url w \<and>
   next_ref (snd (execute_responses w env)) = next_ref w \<and>
   connection (snd (execute_responses w env)) = connection w"
proof (induction env arbitrary: w)
  case Nil
  show ?case by simp
next
  case (Cons a env)
  obtain k resp where a: "a = (k, resp)" by (cases a)
  show ?case unfolding a execute_responses_Cons
    by (cases "getRequest w k") (simp_all add: Cons.IH)
qed

lemma execute_frame [simp]:
  "request_number (snd (execute m w h)) = request_number w"
  "root_url (snd (execute m w h)) = root_url w"
  "next_ref (snd (execute m w h)) = next_ref w"
  by (simp_all add: execute_def Let_def split: sum.splits)

lemma addRequest_simps [simp]:
  "fst (addRequest w s a) = next_ref w"
  "requests (snd (addRequest w s a)) = requests w @ [next_ref w]"
  "request_number (snd (addRequest w s a)) = request_number w + 1"
  "heap (snd (addRequest w s a)) =
     (heap w)(next_ref w := RequestWrapper_init (''/'' @ fmt_d (request_number w)) s a)"
  "next_ref (snd (addRequest w s a)) = Suc (next_ref w)"
  "root_url (snd (addRequest w s a)) = root_url w"
  "connection (snd (addRequest w s a)) = connection w"
  by (simp_all add: addRequest_def Let_def)

lemma step_request_number:
  "request_number (snd (step m w x)) = request_number w + (if is_AddRequest x then 1 else 0)"
  by (cases x) (simp_all add: case_prod_beta split: sum.splits)

lemma step_issued:
  "issued (snd (step m w x)) (fst (step m w x)) =
     (if is_AddRequest x then [''/'' @ fmt_d (request_number w)] else [])"
  by (cases x) (simp_all add: issued_def case_prod_beta RequestWrapper_init_def split: sum.splits)

lemma run_Cons:
  "run m w (x # xs) =
     (issued (snd (step m w x)) (fst (step m w x)) @ fst (run m (snd (step m w x)) xs),
      snd (run m (snd (step m w x)) xs))"
  by (simp add: case_prod_beta Let_def)

subsection \<open>Request ids\<close>

lemma map_upt_shift:
  "map (\<lambda>i. g (c + int i)) [Suc 0..<Suc k] = map (\<lambda>i. g (c + 1 + int i)) [0..<k]"
  by (induction k) (simp_all add: ac_simps)

lemma run_ids:
  "fst (run m w xs) =
     map (\<lambda>i. ''/'' @ fmt_d (request_number w + int i)) [0..<length (filter is_AddRequest xs)] \<and>
   request_number (snd (run m w xs)) = request_number w + int (length (filter is_AddRequest xs))"
proof (induction xs arbitrary: w)
  case Nil
  show ?case by simp
next
  case (Cons x xs)
  let ?w1 = "snd (step m w x)"
  note ih = Cons.IH[of ?w1]
  show ?case
  proof (cases "is_AddRequest x")
    case True
    have shift: "map (\<lambda>i. ''/'' @ fmt_d (request_number w + 1 + int i)) [0..<k] =
          map (\<lambda>i. ''/'' @ fmt_d (request_number w + int i)) [Suc 0..<Suc k]" for k
      using map_upt_shift[of "\<lambda>j. ''/'' @ fmt_d j" "request_number w" k] by simp
    have "fst (run m w (x # xs)) =
            (''/'' @ fmt_d (request_number w)) #
              map (\<lambda>i. ''/'' @ fmt_d (request_number w + int i))
                [Suc 0..<Suc (length (filter is_AddRequest xs))]"
      using True ih unfolding run_Cons shift[symmetric]
      by (simp add: step_issued step_request_number del: run.simps upt_Suc)
    also have "\<dots> = map (\<lambda>i. ''/'' @ fmt_d (request_number w + int i))
                [0..<Suc (length (filter is_AddRequest xs))]"
      by (simp add: upt_conv_Cons del: upt_Suc)
    finally have a: "fst (run m w (x # xs)) =
        map (\<lambda>i. ''/'' @ fmt_d (request_number w + int i))
                [0..<length (filter is_AddRequest (x # xs))]"
      using True by simp
    have b: "request_number (snd (run m w (x # xs))) =
        request_number w + int (length (filter is_AddRequest (x # xs)))"
      using True ih unfolding run_Cons by (simp add: step_request_number del: run.simps)
    show ?thesis using a b by blast
  next
    case False
    show ?thesis
      using False ih unfolding run_Cons
      by (simp add: step_issued step_request_number del: run.simps)
  qed
qed

lemma init_fields:
  "RemotingService_init h n u av ct = Inr w \<Longrightarrow>
     requests w = [] \<and> request_number w = 1 \<and> heap w = h \<and> next_ref w = n \<and>
     root_url w = urlunparse [] [] (path (url_tuple u)) (params (url_tuple u))
                    (query (url_tuple u)) (fragment (url_tuple u)) \<and>
     conn_sent (connection w) = [] \<and> amf_version w = av \<and> client_type w = ct"
  by (auto simp: RemotingService_init_def Let_def split: sum.splits prod.splits if_splits)

text \<open>
  C1. On a client that \<^verbatim>\<open>__init__\<close> has just built, run any sequence of \<^verbatim>\<open>addRequest\<close>,
  \<^verbatim>\<open>removeRequest\<close>, \<^verbatim>\<open>execute_single\<close> and \<^verbatim>\<open>execute\<close> calls, failing or not. The ids
  issued by the \<^verbatim>\<open>addRequest\<close> calls are \<^verbatim>\<open>"/1"\<close>, \<^verbatim>\<open>"/2"\<close>, ..., \<^verbatim>\<open>"/n"\<close> in call order,
  where \<open>n\<close> is the number of \<^verbatim>\<open>addRequest\<close> calls; the counter ends at \<open>n + 1\<close>, and no
  operation ever decreases it.
\<close>

theorem issued_ids_sequential:
  assumes "RemotingService_init h n u av ct = Inr w"
  shows "fst (run m w ops) =
           map (\<lambda>i. ''/'' @ fmt_d (int i)) [1..<Suc (length (filter is_AddRequest ops))] \<and>
         request_number (snd (run m w ops)) = 1 + int (length (filter is_AddRequest ops)) \<and>
         (\<forall>w' x. request_number w' \<le> request_number (snd (step m w' x)))"
proof -
  have rn: "request_number w = 1" using init_fields[OF assms] by simp
  have "map (\<lambda>i. ''/'' @ fmt_d (1 + int i)) [0..<k] =
        map (\<lambda>i. ''/'' @ fmt_d (int i)) [Suc 0..<Suc k]" for k
    using map_upt_shift[of "\<lambda>j. ''/'' @ fmt_d j" 0 k] by simp
  then show ?thesis using run_ids[of m w ops] rn
    by (simp add: step_request_number del: upt_Suc)
qed

theorem issued_ids_sequential_witness:
  "RemotingService_init example_heap 0 example_url 0 0 = Inr example_client \<and>
   fst (run (stub_remoting []) example_client
         [AddRequest (Proxy (ServiceProxy 7 ''math'' False)) [PyInt 1],
          RemoveRequest (Wrapper 0) [],
          AddRequest (Proxy (ServiceProxy 7 ''math'' False)) [PyInt 2],
          RemoveRequest (Wrapper 0) [],
          AddRequest (Proxy (ServiceProxy 7 ''math'' False)) []]) = [''/1'', ''/2'', ''/3'']"
  using issued_ids_sequential [OF example_client_init, of "stub_remoting []"
         "[AddRequest (Proxy (ServiceProxy 7 ''math'' False)) [PyInt 1],
          RemoveRequest (Wrapper 0) [],
          AddRequest (Proxy (ServiceProxy 7 ''math'' False)) [PyInt 2],
          RemoveRequest (Wrapper 0) [],
          AddRequest (Proxy (ServiceProxy 7 ''math'' False)) []]"]
  by (simp add: example_client_init upt_conv_Cons del: run.simps upt_Suc)

subsection \<open>The result of a pending call\<close>

text \<open>
  C5. Reading \<^verbatim>\<open>result\<close> on a wrapper as \<^verbatim>\<open>__init__\<close> builds it, and so on the wrapper
  \<^verbatim>\<open>addRequest\<close> has just created, raises the \<^verbatim>\<open>AttributeError\<close> of \<^verbatim>\<open>_get_result\<close> and
  returns no value; after \<^verbatim>\<open>setResponse(r)\<close> it returns the body of \<open>r\<close>, and \<open>r\<close> is the
  stored response.
\<close>

theorem result_not_ready_then_body:
  "get_result (RequestWrapper_init ident service args) = Inl no_result \<and>
   get_result (heap (snd (addRequest w service args)) (fst (addRequest w service args))) = Inl no_result \<and>
   get_result (setResponse rw r) = Inr (body r) \<and>
   rw_response (setResponse rw r) = Some r"
  by (simp add: get_result_def RequestWrapper_init_def setResponse_def set_result_def)

subsection \<open>Construction\<close>

text \<open>
  C7. \<^verbatim>\<open>RemotingService.__init__\<close> on a URL whose scheme is neither \<^verbatim>\<open>http\<close> nor \<^verbatim>\<open>https\<close>
  raises \<^verbatim>\<open>ValueError\<close>. With the scheme \<^verbatim>\<open>http\<close> and no port in the URL (the \<^verbatim>\<open>port\<close>
  attribute is \<^verbatim>\<open>None\<close>, or the plain tuple has no colon in its network location) the
  connection is an \<^verbatim>\<open>HTTPConnection\<close> on port 80; with \<^verbatim>\<open>https\<close> it is an
  \<^verbatim>\<open>HTTPSConnection\<close> on port 443.
\<close>

theorem init_scheme_and_default_port:
  "(scheme (url_tuple u) \<noteq> ''http'' \<and> scheme (url_tuple u) \<noteq> ''https'' \<longrightarrow>
      (\<exists>msg. RemotingService_init h n u av ct = Inl (ValueError msg))) \<and>
   (scheme t = ''http'' \<longrightarrow>
      (\<exists>w. RemotingService_init h n (ParseResult t hn None) av ct = Inr w \<and>
           connection w = \<lparr>conn_secure = False, conn_host = hn, conn_port = 80, conn_sent = []\<rparr>)) \<and>
   (scheme t = ''http'' \<and> CHR '':'' \<notin> set (netloc t) \<longrightarrow>
      (\<exists>w. RemotingService_init h n (ParseTuple t) av ct = Inr w \<and>
           connection w = \<lparr>conn_secure = False, conn_host = None, conn_port = 80, conn_sent = []\<rparr>)) \<and>
   (scheme t = ''https'' \<longrightarrow>
      (\<exists>w. RemotingService_init h n (ParseResult t hn None) av ct = Inr w \<and>
           connection w = \<lparr>conn_secure = True, conn_host = hn, conn_port = 443, conn_sent = []\<rparr>)) \<and>
   (scheme t = ''https'' \<and> CHR '':'' \<notin> set (netloc t) \<longrightarrow>
      (\<exists>w. RemotingService_init h n (ParseTuple t) av ct = Inr w \<and>
           connection w = \<lparr>conn_secure = True, conn_host = None, conn_port = 443, conn_sent = []\<rparr>))"
proof -
  have a: "scheme (url_tuple u) \<noteq> ''http'' \<and> scheme (url_tuple u) \<noteq> ''https'' \<longrightarrow>
      (\<exists>msg. RemotingService_init h n u av ct = Inl (ValueError msg))"
    by (cases u) (auto simp: RemotingService_init_def Let_def py_int_def split: sum.splits)
  have b: "scheme t = ''http'' \<longrightarrow>
      (\<exists>w. RemotingService_init h n (ParseResult t hn None) av ct = Inr w \<and>
           connection w = \<lparr>conn_secure = False, conn_host = hn, conn_port = 80, conn_sent = []\<rparr>)"
    by (simp add: RemotingService_init_def Let_def)
  have c: "scheme t = ''http'' \<and> CHR '':'' \<notin> set (netloc t) \<longrightarrow>
      (\<exists>w. RemotingService_init h n (ParseTuple t) av ct = Inr w \<and>
           connection w = \<lparr>conn_secure = False, conn_host = None, conn_port = 80, conn_sent = []\<rparr>)"
    by (simp add: RemotingService_init_def Let_def)
  have d: "scheme t = ''https'' \<longrightarrow>
      (\<exists>w. RemotingService_init h n (ParseResult t hn None) av ct = Inr w \<and>
           connection w = \<lparr>conn_secure = True, conn_host = hn, conn_port = 443, conn_sent = []\<rparr>)"
    by (simp add: RemotingService_init_def Let_def)
  have e: "scheme t = ''https'' \<and> CHR '':'' \<notin> set (netloc t) \<longrightarrow>
      (\<exists>w. RemotingService_init h n (ParseTuple t) av ct = Inr w \<and>
           connection w = \<lparr>conn_secure = True, conn_host = None, conn_port = 443, conn_sent = []\<rparr>)"
    by (simp add: RemotingService_init_def Let_def)
  from a b c d e show ?thesis by blast
qed

theorem init_scheme_and_default_port_witness:
  "(scheme (url_tuple (ParseTuple (example_tuple ''ftp''))) \<noteq> ''http'' \<and>
    scheme (url_tuple (ParseTuple (example_tuple ''ftp''))) \<noteq> ''https'' \<and>
    RemotingService_init example_heap 0 (ParseTuple (example_tuple ''ftp'')) 0 0 =
      Inl (ValueError ''Unknown scheme'')) \<and>
   (scheme (example_tuple ''http'') = ''http'' \<and>
    CHR '':'' \<notin> set (netloc (example_tuple ''http'')) \<and>
    (\<exists>w. RemotingService_init example_heap 0 (ParseTuple (example_tuple ''http'')) 0 0 = Inr w \<and>
         conn_port (connection w) = 80) \<and>
    (\<exists>w. RemotingService_init example_heap 0
           (ParseResult (example_tuple ''http'') (Some ''example.com'') None) 0 0 = Inr w \<and>
         conn_port (connection w) = 80)) \<and>
   (scheme (example_tuple ''https'') = ''https'' \<and>
    CHR '':'' \<notin> set (netloc (example_tuple ''https'')) \<and>
    (\<exists>w. RemotingService_init example_heap 0 (ParseTuple (example_tuple ''https'')) 0 0 = Inr w \<and>
         conn_port (connection w) = 443) \<and>
    (\<exists>w. RemotingService_init example_heap 0
           (ParseResult (example_tuple ''https'') (Some ''example.com'') None) 0 0 = Inr w \<and>
         conn_port (connection w) = 443))"
  using init_scheme_and_default_port [where u = "ParseTuple (example_tuple ''ftp'')"
          and t = "example_tuple ''http''" and h = example_heap and n = 0 and av = 0 and ct = 0
          and hn = "Some ''example.com''"]
        init_scheme_and_default_port [where u = "ParseTuple (example_tuple ''ftp'')"
          and t = "example_tuple ''https''" and h = example_heap and n = 0 and av = 0 and ct = 0
          and hn = "Some ''example.com''"]
  by (auto simp: example_tuple_def RemotingService_init_def Let_def)

subsection \<open>Response validation\<close>

text \<open>
  C8. \<^verbatim>\<open>_getResponse\<close>: a status other than 200 raises \<^verbatim>\<open>RemotingError\<close> with the status
  in its message; with status 200, a \<^verbatim>\<open>Content-Type\<close> header that is not
  \<^verbatim>\<open>remoting.CONTENT_TYPE\<close> (or is absent) raises \<^verbatim>\<open>RemotingError\<close>; otherwise the body is
  read with \<^verbatim>\<open>read(content_length)\<close> when the \<^verbatim>\<open>Content-Length\<close> header is present and with
  \<^verbatim>\<open>read()\<close> when it is not, and the bytes read are decoded.
\<close>

theorem getResponse_validation:
  "(status r \<noteq> 200 \<longrightarrow>
      getResponse m r =
        Inl (RemotingError (''HTTP Gateway reported status '' @ fmt_d (status r)))) \<and>
   (status r = 200 \<and> getheader r ''Content-Type'' \<noteq> Some (CONTENT_TYPE m) \<longrightarrow>
      getResponse m r = Inl (RemotingError ''Incorrect MIME type received.'')) \<and>
   (status r = 200 \<and> getheader r ''Content-Type'' = Some (CONTENT_TYPE m) \<and>
    getheader r ''Content-Length'' = Some l \<longrightarrow>
      getResponse m r = decode m (read r (Some l))) \<and>
   (status r = 200 \<and> getheader r ''Content-Type'' = Some (CONTENT_TYPE m) \<and>
    getheader r ''Content-Length'' = None \<longrightarrow>
      getResponse m r = decode m (read r None))"
  by (simp add: getResponse_def Let_def)

theorem getResponse_validation_witness:
  "(status (stub_response 500 [] []) \<noteq> 200 \<and>
    getResponse (stub_remoting []) (stub_response 500 [] []) =
      Inl (RemotingError ''HTTP Gateway reported status 500'')) \<and>
   (status (stub_response 200 [(''Content-Type'', ''text/html'')] ''abcdef'') = 200 \<and>
    getheader (stub_response 200 [(''Content-Type'', ''text/html'')] ''abcdef'') ''Content-Type''
      \<noteq> Some (CONTENT_TYPE (stub_remoting [])) \<and>
    getResponse (stub_remoting []) (stub_response 200 [(''Content-Type'', ''text/html'')] ''abcdef'') =
      Inl (RemotingError ''Incorrect MIME type received.'')) \<and>
   (getheader (stub_response 200 [(''Content-Type'', ''application/x-amf''),
        (''Content-Length'', ''3'')] ''abcdef'') ''Content-Length'' = Some ''3'' \<and>
    read (stub_response 200 [(''Content-Type'', ''application/x-amf''),
        (''Content-Length'', ''3'')] ''abcdef'') (Some ''3'') = ''abc'' \<and>
    getResponse (stub_remoting []) (stub_response 200 [(''Content-Type'', ''application/x-amf''),
        (''Content-Length'', ''3'')] ''abcdef'') = decode (stub_remoting []) ''abc'') \<and>
   (getheader (amf_ok ''abcdef'') ''Content-Length'' = None \<and>
    read (amf_ok ''abcdef'') None = ''abcdef'' \<and>
    getResponse (stub_remoting []) (amf_ok ''abcdef'') = decode (stub_remoting []) ''abcdef'')"
  using getResponse_validation [of "stub_response 500 [] []" "stub_remoting []"]
        getResponse_validation [of "stub_response 200 [(''Content-Type'', ''text/html'')] ''abcdef''"
          "stub_remoting []"]
        getResponse_validation [of "stub_response 200 [(''Content-Type'', ''application/x-amf''),
          (''Content-Length'', ''3'')] ''abcdef''" "stub_remoting []" "''3''"]
        getResponse_validation [of "amf_ok ''abcdef''" "stub_remoting []"]
  by (simp add: stub_response_def stub_remoting_def amf_ok_def fmt_d_500 py_int_3)

subsection \<open>Cancelling\<close>

text \<open>
  C4, at a failing input. \<^verbatim>\<open>removeRequest(w)\<close> on the queued wrapper \<open>w\<close> removes it; the
  second \<^verbatim>\<open>removeRequest(w)\<close> raises the \<^verbatim>\<open>ValueError\<close> of \<^verbatim>\<open>list.index\<close>, which is not a
  \<^verbatim>\<open>LookupError\<close>.
\<close>

theorem second_cancel_raises_ValueError:
  "(let (res1, w2) = removeRequest example_pending (Wrapper 1) [];
        (res2, w3) = removeRequest w2 (Wrapper 1) []
    in requests example_pending = [1] \<and> res1 = Inr () \<and> requests w2 = [] \<and>
       res2 = Inl (ValueError ''list.index(x): x not in list'') \<and>
       \<not> isinstance_LookupError (ValueError ''list.index(x): x not in list'') \<and>
       requests w3 = [])"
  by (simp add: example_pending_eval client_defs example_defs Let_def)

subsection \<open>A call through the proxies\<close>

text \<open>
  C6, evaluated. On the example client, \<^verbatim>\<open>getService("math").add(1, 2)\<close> with the stubbed
  envelope \<^verbatim>\<open>{"/1": response(3)}\<close> returns 3, leaves the queue empty and sends one POST;
  the wrapper it registered has the id \<^verbatim>\<open>"/1"\<close> and the target \<^verbatim>\<open>"math.add"\<close>, and its
  argument list is the one-element tuple \<^verbatim>\<open>((1, 2),)\<close>, not \<^verbatim>\<open>(1, 2)\<close>.
\<close>

theorem math_add_scenario:
  "(let sp = ServiceProxy 0 ''math'' True;
        w1 = snd (getService example_client (PyStr ''math'') True);
        (mp, w2) = ServiceProxy_getattr w1 sp ''add'';
        r = next_ref w2;
        (res, w4) = ServiceMethodProxy_invoke (stub_remoting [(''/1'', \<lparr>body = PyInt 3\<rparr>)])
                      w2 mp [PyInt 1, PyInt 2] (amf_ok [])
    in fst (getService example_client (PyStr ''math'') True) = Inr sp \<and>
       res = Inr (Body (PyInt 3)) \<and>
       requests w4 = [] \<and>
       conn_sent (connection w4) = [(''POST'', ''/gateway?x=1'', ''/1'' @ [CHR 0x0A])] \<and>
       heap w4 r = \<lparr>rw_id = ''/1'', rw_service = Method mp,
                     rw_args = [PyTuple [PyInt 1, PyInt 2]],
                     rw_response = None, rw_result = None\<rparr> \<and>
       bodies (getAMFRequest w4 [r]) =
         [(''/1'', \<lparr>target = ''math.add'', req_body = [PyTuple [PyInt 1, PyInt 2]]\<rparr>)] \<and>
       rw_args (heap w4 r) \<noteq> [PyInt 1, PyInt 2])"
  by (simp add: client_defs example_defs Let_def)

subsection \<open>A single exchange\<close>

text \<open>
  C2 fails as stated: with the wrapper 1 queued and a response of status 500,
  \<^verbatim>\<open>execute_single\<close> raises \<^verbatim>\<open>RemotingError\<close> and the wrapper is still in the queue.
\<close>

theorem execute_single_keeps_request_on_error:
  "1 \<in> set (requests example_pending) \<and>
   fst (execute_single (stub_remoting []) example_pending 1 (stub_response 500 [] [])) =
     Inl (RemotingError ''HTTP Gateway reported status 500'') \<and>
   1 \<in> set (requests (snd (execute_single (stub_remoting []) example_pending 1
                              (stub_response 500 [] []))))"
  by (simp add: example_pending_eval client_defs example_defs Let_def fmt_d_500)

lemma execute_single_requests:
  "encode m (getAMFRequest w [c]) = Inr b \<Longrightarrow> getResponse m resp = Inr env \<Longrightarrow>
     requests (snd (execute_single m w c resp)) = remove1 c (requests w)"
proof (cases "c \<in> set (requests w)")
  case True
  assume "encode m (getAMFRequest w [c]) = Inr b" "getResponse m resp = Inr env"
  then show ?thesis using True
    by (simp add: execute_single_def Let_def removeRequest_Wrapper del_request_in)
next
  case False
  assume "encode m (getAMFRequest w [c]) = Inr b" "getResponse m resp = Inr env"
  then show ?thesis using False
    by (simp add: execute_single_def Let_def removeRequest_Wrapper del_request_notin
        remove1_idem)
qed

text \<open>
  C2, amended. When the request is encoded and the response passes \<^verbatim>\<open>_getResponse\<close>, the
  queue after \<^verbatim>\<open>execute_single(c)\<close> is the queue without the first entry for \<open>c\<close>, so a
  queue that holds no wrapper twice no longer holds \<open>c\<close>, whether the call returns the
  response or raises. When \<^verbatim>\<open>_getResponse\<close> raises, \<^verbatim>\<open>execute_single(c)\<close> raises that
  error and the queue is unchanged.
\<close>

theorem execute_single_queue:
  "(encode m (getAMFRequest w [c]) = Inr b \<and> getResponse m resp = Inr env \<and>
    distinct (requests w) \<longrightarrow>
      requests (snd (execute_single m w c resp)) = remove1 c (requests w) \<and>
      c \<notin> set (requests (snd (execute_single m w c resp)))) \<and>
   (encode m (getAMFRequest w [c]) = Inr b \<and> getResponse m resp = Inl e \<longrightarrow>
      fst (execute_single m w c resp) = Inl e \<and>
      requests (snd (execute_single m w c resp)) = requests w)"
proof -
  have "requests (snd (execute_single m w c resp)) = remove1 c (requests w) \<and>
        c \<notin> set (requests (snd (execute_single m w c resp)))"
    if "encode m (getAMFRequest w [c]) = Inr b" "getResponse m resp = Inr env"
       "distinct (requests w)"
    using that execute_single_requests[of m w c b resp env] by simp
  moreover have "fst (execute_single m w c resp) = Inl e \<and>
      requests (snd (execute_single m w c resp)) = requests w"
    if "encode m (getAMFRequest w [c]) = Inr b" "getResponse m resp = Inl e"
    using that by (simp add: execute_single_def Let_def)
  ultimately show ?thesis by blast
qed

theorem execute_single_queue_witness:
  "(encode (stub_remoting []) (getAMFRequest example_pending [1]) = Inr (''/1'' @ [CHR 0x0A]) \<and>
    getResponse (stub_remoting []) (amf_ok []) =
      Inr \<lparr>amfVersion = 0, clientType = 0, bodies = []\<rparr> \<and>
    distinct (requests example_pending) \<and>
    fst (execute_single (stub_remoting []) example_pending 1 (amf_ok [])) = Inl (KeyError ''/1'') \<and>
    1 \<notin> set (requests (snd (execute_single (stub_remoting []) example_pending 1 (amf_ok []))))) \<and>
   (getResponse (stub_remoting []) (stub_response 500 [] []) =
      Inl (RemotingError ''HTTP Gateway reported status 500'') \<and>
    requests (snd (execute_single (stub_remoting []) example_pending 1
                     (stub_response 500 [] []))) = [1])"
  using execute_single_queue [of "stub_remoting []" example_pending 1 "''/1'' @ [CHR 0x0A]"
          "amf_ok []" "\<lparr>amfVersion = 0, clientType = 0, bodies = []\<rparr>"]
        execute_single_queue [of "stub_remoting []" example_pending 1 "''/1'' @ [CHR 0x0A]"
          "stub_response 500 [] []" _ "RemotingError ''HTTP Gateway reported status 500''"]
  by (simp add: example_pending_eval client_defs example_defs Let_def fmt_d_500)

subsection \<open>The request path\<close>

lemma step_root_url [simp]: "root_url (snd (step m w x)) = root_url w"
  by (cases x) (simp_all add: case_prod_beta split: sum.splits)

lemma run_root_url [simp]: "root_url (snd (run m w xs)) = root_url w"
  by (induction xs arbitrary: w) (simp_all add: run_Cons del: run.simps(2))

lemma urlunparse_relative:
  "urlunparse [] [] p ps q f =
     p @ (if ps \<noteq> [] then '';'' @ ps else []) @ (if q \<noteq> [] then ''?'' @ q else []) @
     (if f \<noteq> [] then ''#'' @ f else [])"
  by (simp add: urlunparse_def urlunsplit_def Let_def)

lemma execute_single_sent:
  "encode m (getAMFRequest w [c]) = Inr b \<Longrightarrow>
     conn_sent (connection (snd (execute_single m w c resp))) =
       conn_sent (connection w) @ [(''POST'', root_url w, b)]"
  by (simp add: execute_single_def Let_def case_prod_beta conn_request_def split: sum.splits)

lemma execute_sent:
  "encode m (getAMFRequest w (requests w)) = Inr b \<Longrightarrow>
     conn_sent (connection (snd (execute m w resp))) =
       conn_sent (connection w) @ [(''POST'', root_url w, b)]"
  by (simp add: execute_def Let_def conn_request_def split: sum.splits)

text \<open>
  C9, amended. In every state a client reaches from \<^verbatim>\<open>__init__\<close>, \<^verbatim>\<open>execute_single\<close> and
  \<^verbatim>\<open>execute\<close> each add exactly one request to the connection once the envelope is
  encoded: a POST of the encoded bytes to the parsed URL without its scheme and network
  location (user-info, host, port), that is the path followed by \<^verbatim>\<open>;params\<close>, \<^verbatim>\<open>?query\<close> and
  \<^verbatim>\<open>#fragment\<close> where these are not empty.
\<close>

theorem exchange_posts_to_root_url:
  assumes "RemotingService_init h n u av ct = Inr w0"
  shows "(let w = snd (run m w0 ops);
              t = url_tuple u;
              root = path t @ (if params t \<noteq> [] then '';'' @ params t else []) @
                     (if query t \<noteq> [] then ''?'' @ query t else []) @
                     (if fragment t \<noteq> [] then ''#'' @ fragment t else [])
          in root_url w = root \<and>
             (\<forall>c resp b. encode m (getAMFRequest w [c]) = Inr b \<longrightarrow>
                conn_sent (connection (snd (execute_single m w c resp))) =
                  conn_sent (connection w) @ [(''POST'', root, b)]) \<and>
             (\<forall>resp b. encode m (getAMFRequest w (requests w)) = Inr b \<longrightarrow>
                conn_sent (connection (snd (execute m w resp))) =
                  conn_sent (connection w) @ [(''POST'', root, b)]))"
proof -
  have "root_url w0 = urlunparse [] [] (path (url_tuple u)) (params (url_tuple u))
                    (query (url_tuple u)) (fragment (url_tuple u))"
    using init_fields[OF assms] by simp
  then have r: "root_url (snd (run m w0 ops)) =
      path (url_tuple u) @ (if params (url_tuple u) \<noteq> [] then '';'' @ params (url_tuple u) else []) @
      (if query (url_tuple u) \<noteq> [] then ''?'' @ query (url_tuple u) else []) @
      (if fragment (url_tuple u) \<noteq> [] then ''#'' @ fragment (url_tuple u) else [])"
    by (simp only: run_root_url urlunparse_relative)
  show ?thesis
    unfolding Let_def r[symmetric]
    by (simp add: execute_single_sent execute_sent)
qed

theorem exchange_posts_to_root_url_witness:
  "RemotingService_init example_heap 0 example_url 0 0 = Inr example_client \<and>
   encode (stub_remoting [])
     (getAMFRequest (snd (run (stub_remoting []) example_client
                            [AddRequest (Proxy example_math) [PyInt 1]]))
        (requests (snd (run (stub_remoting []) example_client
                            [AddRequest (Proxy example_math) [PyInt 1]])))) =
     Inr (''/1'' @ [CHR 0x0A]) \<and>
   conn_sent (connection (snd (execute (stub_remoting [])
       (snd (run (stub_remoting []) example_client [AddRequest (Proxy example_math) [PyInt 1]]))
       (amf_ok [])))) = [(''POST'', ''/gateway?x=1'', ''/1'' @ [CHR 0x0A])]"
proof -
  let ?m = "stub_remoting []"
  let ?W = "snd (run ?m example_client [AddRequest (Proxy example_math) [PyInt 1]])"
  have W: "?W = example_client
     \<lparr>requests := [0], request_number := 2,
      heap := example_heap(0 := \<lparr>rw_id = ''/1'', rw_service = Proxy example_math,
                rw_args = [PyInt 1], rw_response = None, rw_result = None\<rparr>),
      next_ref := 1\<rparr>"
    by (simp add: addRequest_def Let_def RequestWrapper_init_def example_client_def)
  have enc: "encode ?m (getAMFRequest ?W (requests ?W)) = Inr (''/1'' @ [CHR 0x0A])"
    unfolding W
    by (simp add: getAMFRequest_def Envelope_setitem_def stub_remoting_def example_client_def)
  have sent: "conn_sent (connection ?W) = []"
    unfolding W by (simp add: example_client_def)
  have "conn_sent (connection (snd (execute ?m ?W (amf_ok [])))) =
          conn_sent (connection ?W) @
          [(''POST'', path (url_tuple example_url) @
              (if params (url_tuple example_url) \<noteq> []
               then '';'' @ params (url_tuple example_url) else []) @
              (if query (url_tuple example_url) \<noteq> []
               then ''?'' @ query (url_tuple example_url) else []) @
              (if fragment (url_tuple example_url) \<noteq> []
               then ''#'' @ fragment (url_tuple example_url) else []), ''/1'' @ [CHR 0x0A])]"
    using exchange_posts_to_root_url [OF example_client_init, of ?m
          "[AddRequest (Proxy example_math) [PyInt 1]]"] enc
    unfolding Let_def by blast
  then have "conn_sent (connection (snd (execute ?m ?W (amf_ok [])))) =
      [(''POST'', ''/gateway?x=1'', ''/1'' @ [CHR 0x0A])]"
    unfolding sent by (simp add: example_url_def)
  with enc example_client_init show ?thesis by blast
qed

text \<open>
  C9 fails as stated: for \<^verbatim>\<open>http://user:pw@example.com/gateway?x=1\<close> the POST goes to
  \<^verbatim>\<open>/gateway?x=1\<close>, with the query, and not to the path \<^verbatim>\<open>/gateway\<close>.
\<close>

theorem post_path_keeps_query:
  "RemotingService_init example_heap 0 example_url 0 0 = Inr example_client \<and>
   path (url_tuple example_url) = ''/gateway'' \<and>
   query (url_tuple example_url) = ''x=1'' \<and>
   conn_sent (connection (snd (execute (stub_remoting []) example_client (amf_ok [])))) =
     [(''POST'', ''/gateway?x=1'', [])] \<and>
   ''/gateway?x=1'' \<noteq> path (url_tuple example_url)"
  by (simp add: example_client_init)
     (simp add: client_defs example_defs example_url_def Let_def)

subsection \<open>Distinct ids: the invariant of the queue\<close>

lemma digit_char_val: "d < 10 \<Longrightarrow> (of_char (digit_char d) :: nat) = 48 + d"
proof -
  assume "d < 10"
  then have "d = 0 \<or> d = 1 \<or> d = 2 \<or> d = 3 \<or> d = 4 \<or> d = 5 \<or> d = 6 \<or> d = 7 \<or> d = 8 \<or> d = 9"
    by arith
  then show ?thesis by (auto simp: digit_char_def)
qed

lemma digits_value_snoc:
  "digits_value (ds @ [c]) = 10 * digits_value ds + ((of_char c :: nat) - 48)"
  by (simp add: digits_value_def)

lemma digits_value_digits: "digits_value (digits n) = n"
proof (induction n rule: digits.induct)
  case (1 n)
  show ?case
  proof (cases "n < 10")
    case True
    then show ?thesis
      using digits_value_snoc[of "[]" "digit_char n"]
      by (simp add: digits.simps[of n] digit_char_val digits_value_def)
  next
    case False
    then show ?thesis
      using 1 by (simp add: digits.simps[of n] digits_value_snoc digit_char_val)
  qed
qed

lemma digits_inj: "digits a = digits b \<Longrightarrow> a = b"
  by (metis digits_value_digits)

lemma fmt_d_inj: "0 \<le> a \<Longrightarrow> 0 \<le> b \<Longrightarrow> fmt_d a = fmt_d b \<Longrightarrow> a = b"
  by (auto simp: fmt_d_def dest: digits_inj)

lemma setResponse_id [simp]: "rw_id (setResponse x a) = rw_id x"
  by (simp add: setResponse_def set_result_def)

lemma getRequest_Inl:
  "getRequest w k = Inl e \<Longrightarrow>
     e = LookupError (''request '' @ k @ '' not found'') \<and> k \<notin> set (queue_ids w)"
  by (auto simp: getRequest_def queue_ids_def find_None_iff split: option.splits)

lemma distinct_ids_requests: "distinct (queue_ids w) \<Longrightarrow> distinct (requests w)"
  by (simp add: queue_ids_def distinct_map)

lemma distinct_ids_remove1:
  assumes "distinct (queue_ids w)" "r0 \<in> set (requests w)"
  shows "remove1 r0 (requests w) =
           filter (\<lambda>r. rw_id (heap w r) \<noteq> rw_id (heap w r0)) (requests w)"
proof -
  have d: "distinct (requests w)" and i: "inj_on (\<lambda>r. rw_id (heap w r)) (set (requests w))"
    using assms(1) by (simp_all add: queue_ids_def distinct_map)
  have "remove1 r0 (requests w) = filter (\<lambda>r. r \<noteq> r0) (requests w)"
    using d by (simp add: distinct_remove1_removeAll removeAll_filter_not_eq) metis
  also have "\<dots> = filter (\<lambda>r. rw_id (heap w r) \<noteq> rw_id (heap w r0)) (requests w)"
    using i assms(2) by (intro filter_cong) (auto dest: inj_onD)
  finally show ?thesis .
qed

subsection \<open>The batch exchange\<close>

lemma execute_responses_ok:
  assumes "distinct (queue_ids w)" "execute_responses w env = (Inr (), w')"
  shows "requests w' = filter (\<lambda>r. rw_id (heap w r) \<notin> fst ` set env) (requests w) \<and>
         (\<forall>r \<in> set (requests w). \<forall>a. map_of env (rw_id (heap w r)) = Some a \<longrightarrow>
              heap w' r = setResponse (heap w r) a) \<and>
         (\<forall>r. r \<notin> set (requests w) \<or> rw_id (heap w r) \<notin> fst ` set env \<longrightarrow>
              heap w' r = heap w r)"
  using assms
proof (induction env arbitrary: w)
  case Nil
  then show ?case by simp
next
  case (Cons p rest)
  obtain k a where p: "p = (k, a)" by (cases p)
  from Cons.prems(2) obtain r0 where g: "getRequest w k = Inr r0"
    unfolding p execute_responses_Cons by (cases "getRequest w k") auto
  define w1 where "w1 = w\<lparr>heap := (heap w)(r0 := setResponse (heap w r0) a),
                          requests := remove1 r0 (requests w)\<rparr>"
  have run: "execute_responses w1 rest = (Inr (), w')"
    using Cons.prems(2) g unfolding p execute_responses_Cons w1_def by simp
  have r0: "r0 \<in> set (requests w)" "rw_id (heap w r0) = k"
    using getRequest_Inr[OF g] by simp_all
  have ids: "rw_id (heap w1 r) = rw_id (heap w r)" for r
    by (simp add: w1_def)
  have rem: "requests w1 = filter (\<lambda>r. rw_id (heap w r) \<noteq> k) (requests w)"
    using distinct_ids_remove1[OF Cons.prems(1) r0(1)] r0(2) by (simp add: w1_def)
  have d1: "distinct (queue_ids w1)"
    using Cons.prems(1) unfolding queue_ids_def ids rem by (simp add: distinct_map_filter)
  note ih = Cons.IH[OF d1 run, unfolded ids]
  have notin: "r0 \<notin> set (requests w1)"
    unfolding rem using r0(2) by simp
  have q: "requests w' = filter (\<lambda>r. rw_id (heap w r) \<notin> fst ` set (p # rest)) (requests w)"
    using ih unfolding rem p by (auto intro: filter_cong)
  have h2: "heap w' r = setResponse (heap w r) b"
    if "r \<in> set (requests w)" "map_of (p # rest) (rw_id (heap w r)) = Some b" for r b
  proof (cases "rw_id (heap w r) = k")
    case True
    then have "r = r0"
      using Cons.prems(1) that(1) r0 by (auto simp: queue_ids_def distinct_map dest: inj_onD)
    moreover have "b = a" using that(2) True by (simp add: p)
    moreover have "heap w' r0 = heap w1 r0" using ih notin by blast
    ultimately show ?thesis by (simp add: w1_def)
  next
    case False
    then have "r \<in> set (requests w1)" "map_of rest (rw_id (heap w r)) = Some b" "r \<noteq> r0"
      using that r0(2) by (auto simp: rem p)
    then have "heap w' r = setResponse (heap w1 r) b" using ih by blast
    then show ?thesis using \<open>r \<noteq> r0\<close> by (simp add: w1_def)
  qed
  have h3: "heap w' r = heap w r"
    if "r \<notin> set (requests w) \<or> rw_id (heap w r) \<notin> fst ` set (p # rest)" for r
  proof -
    have ne: "r \<noteq> r0" using that r0 by (auto simp: p)
    have "r \<notin> set (requests w1) \<or> rw_id (heap w r) \<notin> fst ` set rest"
      using that by (auto simp: rem p)
    then have "heap w' r = heap w1 r" using ih by blast
    then show ?thesis using ne by (simp add: w1_def)
  qed
  show ?case using q h2 h3 by blast
qed

lemma execute_responses_missing:
  assumes "\<exists>k \<in> fst ` set env. k \<notin> set (queue_ids w)"
  shows "\<exists>k. fst (execute_responses w env) = Inl (LookupError (''request '' @ k @ '' not found''))"
  using assms
proof (induction env arbitrary: w)
  case Nil
  then show ?case by simp
next
  case (Cons p rest)
  obtain k a where p: "p = (k, a)" by (cases p)
  show ?case
  proof (cases "getRequest w k")
    case (Inl e)
    then show ?thesis
      unfolding p execute_responses_Cons using getRequest_Inl[OF Inl] by auto
  next
    case (Inr r0)
    define w1 where "w1 = w\<lparr>heap := (heap w)(r0 := setResponse (heap w r0) a),
                          requests := remove1 r0 (requests w)\<rparr>"
    have r0: "r0 \<in> set (requests w)" "rw_id (heap w r0) = k"
      using getRequest_Inr[OF Inr] by simp_all
    have ids: "rw_id (heap w1 r) = rw_id (heap w r)" for r
      by (simp add: w1_def)
    have "set (requests w1) \<subseteq> set (requests w)"
      using set_remove1_subset[of r0 "requests w"] by (simp add: w1_def)
    then have sub: "set (queue_ids w1) \<subseteq> set (queue_ids w)"
      unfolding queue_ids_def ids by auto
    have "k \<in> set (queue_ids w)" using r0 by (auto simp: queue_ids_def)
    then have "\<exists>k' \<in> fst ` set rest. k' \<notin> set (queue_ids w1)"
      using Cons.prems sub unfolding p by auto
    from Cons.IH[OF this] show ?thesis
      unfolding p execute_responses_Cons using Inr by (simp add: w1_def)
  qed
qed

lemma distinct_map_remove1: "distinct (map f xs) \<Longrightarrow> distinct (map f (remove1 x xs))"
proof (induction xs)
  case Nil
  then show ?case by simp
next
  case (Cons a xs)
  have "set (remove1 x xs) \<subseteq> set xs" by (rule set_remove1_subset)
  then show ?case using Cons by auto
qed

lemma invar_shrink:
  assumes "invar w"
    and "request_number w' = request_number w" and "next_ref w' = next_ref w"
    and "\<And>r. rw_id (heap w' r) = rw_id (heap w r)"
    and "requests w' = requests w \<or> (\<exists>r. requests w' = remove1 r (requests w))"
  shows "invar w'"
proof -
  from assms(5) have sub: "set (requests w') \<subseteq> set (requests w)"
    using set_remove1_subset by fastforce
  from assms(5) have "distinct (map (\<lambda>r. rw_id (heap w r)) (requests w'))"
    using assms(1) by (auto simp: invar_def queue_ids_def distinct_map_remove1)
  then show ?thesis
    using assms(1) sub unfolding invar_def queue_ids_def assms(2,3,4) by auto
qed

lemma del_request_requests:
  "requests (snd (del_request w r)) = remove1 r (requests w)"
  by (cases "r \<in> set (requests w)") (simp_all add: del_request_in del_request_notin remove1_idem)

lemma removeRequest_requests:
  "requests (snd (removeRequest w s a)) = requests w \<or>
   (\<exists>r. requests (snd (removeRequest w s a)) = remove1 r (requests w))"
  by (auto simp: removeRequest_def del_request_requests split: pyobj.splits option.splits)

lemma invar_removeRequest: "invar w \<Longrightarrow> invar (snd (removeRequest w s a))"
  by (rule invar_shrink[where w = w]) (simp_all add: removeRequest_requests)

lemma invar_connection [simp]: "invar (w\<lparr>connection := c\<rparr>) = invar w"
  by (simp add: invar_def queue_ids_def)

lemma execute_single_requests_shape:
  "requests (snd (execute_single m w c resp)) = requests w \<or>
   (\<exists>r. requests (snd (execute_single m w c resp)) = remove1 r (requests w))"
  by (auto simp: execute_single_def Let_def case_prod_beta removeRequest_Wrapper
      del_request_requests split: sum.splits)

lemma invar_execute_single: "invar w \<Longrightarrow> invar (snd (execute_single m w c resp))"
  by (rule invar_shrink[where w = w]) (simp_all add: execute_single_requests_shape)

lemma invar_execute_responses: "invar w \<Longrightarrow> invar (snd (execute_responses w env))"
proof (induction env arbitrary: w)
  case Nil
  then show ?case by simp
next
  case (Cons p rest)
  obtain k a where p: "p = (k, a)" by (cases p)
  show ?case
  proof (cases "getRequest w k")
    case (Inl e)
    then show ?thesis unfolding p execute_responses_Cons using Cons.prems by simp
  next
    case (Inr r0)
    have "invar (w\<lparr>heap := (heap w)(r0 := setResponse (heap w r0) a),
                   requests := remove1 r0 (requests w)\<rparr>)"
      by (rule invar_shrink[OF Cons.prems]) auto
    from Cons.IH[OF this] show ?thesis
      unfolding p execute_responses_Cons using Inr by simp
  qed
qed

lemma invar_execute: "invar w \<Longrightarrow> invar (snd (execute m w resp))"
  by (simp add: execute_def Let_def invar_execute_responses split: sum.splits)

lemma invar_addRequest:
  assumes "invar w"
  shows "invar (snd (addRequest w s a))"
proof -
  let ?n = "request_number w"
  have pos: "0 < ?n" using assms by (simp add: invar_def)
  have old: "r < next_ref w \<and> (\<exists>k < nat ?n. rw_id (heap w r) = ''/'' @ fmt_d (int k))"
    if "r \<in> set (requests w)" for r
    using assms that by (simp add: invar_def)
  have fresh: "''/'' @ fmt_d ?n \<notin> set (queue_ids w)"
  proof
    assume "''/'' @ fmt_d ?n \<in> set (queue_ids w)"
    then obtain r where r: "r \<in> set (requests w)" "rw_id (heap w r) = ''/'' @ fmt_d ?n"
      by (auto simp: queue_ids_def)
    from old[OF r(1)] r(2) obtain k where k: "k < nat ?n" "fmt_d (int k) = fmt_d ?n"
      by auto
    from fmt_d_inj[OF _ _ k(2)] pos have "int k = ?n" by simp
    with k(1) show False by simp
  qed
  have same: "map (\<lambda>r. rw_id (((heap w)(next_ref w := x)) r)) (requests w) = queue_ids w" for x
    unfolding queue_ids_def using old by (intro map_cong) auto
  have "queue_ids (snd (addRequest w s a)) =
          map (\<lambda>r. rw_id (((heap w)(next_ref w :=
                 RequestWrapper_init (''/'' @ fmt_d ?n) s a)) r)) (requests w) @
          [''/'' @ fmt_d ?n]"
    by (simp add: queue_ids_def RequestWrapper_init_def)
  then have qi: "queue_ids (snd (addRequest w s a)) = queue_ids w @ [''/'' @ fmt_d ?n]"
    by (simp only: same)
  have d: "distinct (queue_ids (snd (addRequest w s a)))"
    unfolding qi using assms fresh by (simp add: invar_def)
  have b: "r < Suc (next_ref w) \<and>
           (\<exists>k < nat (?n + 1). rw_id (heap (snd (addRequest w s a)) r) = ''/'' @ fmt_d (int k))"
    if "r \<in> set (requests w @ [next_ref w])" for r
  proof (cases "r = next_ref w")
    case True
    have k: "nat ?n < nat (?n + 1)" "fmt_d ?n = fmt_d (int (nat ?n))" using pos by simp_all
    have "rw_id (heap (snd (addRequest w s a)) r) = ''/'' @ fmt_d ?n"
      using True by (simp add: RequestWrapper_init_def)
    then have "\<exists>k < nat (?n + 1).
        rw_id (heap (snd (addRequest w s a)) r) = ''/'' @ fmt_d (int k)"
      using k by metis
    then show ?thesis using True by simp
  next
    case False
    then have "r \<in> set (requests w)" using that by simp
    from old[OF this] obtain k where "r < next_ref w" "k < nat ?n"
      "rw_id (heap w r) = ''/'' @ fmt_d (int k)" by blast
    moreover have "k < nat (?n + 1)" using \<open>k < nat ?n\<close> by simp
    ultimately show ?thesis using False by auto
  qed
  show ?thesis
    unfolding invar_def using pos d b by simp
qed

lemma invar_step: "invar w \<Longrightarrow> invar (snd (step m w x))"
  by (cases x)
     (simp_all add: case_prod_beta invar_addRequest invar_removeRequest invar_execute_single
        invar_execute split: sum.splits)

lemma invar_run: "invar w \<Longrightarrow> invar (snd (run m w xs))"
  by (induction xs arbitrary: w) (simp_all add: run_Cons invar_step del: run.simps(2))

lemma invar_init: "RemotingService_init h n u av ct = Inr w \<Longrightarrow> invar w"
  using init_fields[of h n u av ct w] by (simp add: invar_def queue_ids_def)

text \<open>
  C3. Let \<open>w\<close> be a state the client reaches from \<^verbatim>\<open>__init__\<close>, in which the queue encodes
  and the HTTP response decodes to the envelope \<open>env\<close>. If \<^verbatim>\<open>execute()\<close> returns, then
  every queued call whose id is a key of \<open>env\<close> has that response attached, its result is
  the response body and it has left the queue; every queued call whose id is not a key
  of \<open>env\<close> is still queued and its wrapper is unchanged; the queue keeps its order. If
  some key of \<open>env\<close> is the id of no queued call, \<^verbatim>\<open>execute()\<close> raises \<^verbatim>\<open>LookupError\<close>.
\<close>

theorem execute_correlates_responses:
  assumes "RemotingService_init h n u av ct = Inr w0"
    and "w = snd (run m w0 ops)"
    and "encode m (getAMFRequest w (requests w)) = Inr b"
    and "getResponse m resp = Inr env"
  shows "(fst (execute m w resp) = Inr () \<longrightarrow>
            requests (snd (execute m w resp)) =
              filter (\<lambda>r. rw_id (heap w r) \<notin> fst ` set (bodies env)) (requests w) \<and>
            (\<forall>r \<in> set (requests w). \<forall>a. map_of (bodies env) (rw_id (heap w r)) = Some a \<longrightarrow>
               r \<notin> set (requests (snd (execute m w resp))) \<and>
               heap (snd (execute m w resp)) r = setResponse (heap w r) a \<and>
               rw_response (heap (snd (execute m w resp)) r) = Some a \<and>
               get_result (heap (snd (execute m w resp)) r) = Inr (body a)) \<and>
            (\<forall>r \<in> set (requests w). rw_id (heap w r) \<notin> fst ` set (bodies env) \<longrightarrow>
               r \<in> set (requests (snd (execute m w resp))) \<and>
               heap (snd (execute m w resp)) r = heap w r)) \<and>
         ((\<exists>k \<in> fst ` set (bodies env). k \<notin> set (queue_ids w)) \<longrightarrow>
            (\<exists>k. fst (execute m w resp) = Inl (LookupError (''request '' @ k @ '' not found''))))"
proof -
  define w1 where "w1 = w\<lparr>connection := conn_request (connection w) ''POST'' (root_url w) b\<rparr>"
  have ex: "execute m w resp = execute_responses w1 (bodies env)"
    using assms(3,4) by (simp add: execute_def Let_def w1_def)
  have same: "heap w1 = heap w" "requests w1 = requests w" "queue_ids w1 = queue_ids w"
    by (simp_all add: w1_def queue_ids_def)
  have "invar w"
    unfolding assms(2) by (rule invar_run) (rule invar_init[OF assms(1)])
  then have d: "distinct (queue_ids w1)" by (simp add: invar_def same)
  have ok: ?thesis if s: "fst (execute m w resp) = Inr ()"
  proof -
    let ?w' = "snd (execute m w resp)"
    have "execute_responses w1 (bodies env) = (Inr (), ?w')"
      using s unfolding ex by (simp add: prod_eq_iff)
    note r = execute_responses_ok[OF d this, unfolded same]
    have q: "requests ?w' = filter (\<lambda>r. rw_id (heap w r) \<notin> fst ` set (bodies env)) (requests w)"
      using r by blast
    have att: "r \<notin> set (requests ?w') \<and> heap ?w' r = setResponse (heap w r) a \<and>
               rw_response (heap ?w' r) = Some a \<and> get_result (heap ?w' r) = Inr (body a)"
      if "r \<in> set (requests w)" "map_of (bodies env) (rw_id (heap w r)) = Some a" for r a
    proof -
      have "rw_id (heap w r) \<in> fst ` set (bodies env)"
        using that(2) by (metis map_of_SomeD fst_conv image_eqI)
      then have "r \<notin> set (requests ?w')" unfolding q by simp
      moreover have "heap ?w' r = setResponse (heap w r) a" using r that by blast
      ultimately show ?thesis
        by (simp add: setResponse_def set_result_def get_result_def)
    qed
    have keep: "r \<in> set (requests ?w') \<and> heap ?w' r = heap w r"
      if "r \<in> set (requests w)" "rw_id (heap w r) \<notin> fst ` set (bodies env)" for r
      using that r unfolding q by simp
    have "\<not> (\<exists>k \<in> fst ` set (bodies env). k \<notin> set (queue_ids w))"
      using execute_responses_missing[of "bodies env" w1] s unfolding ex same by auto
    then show ?thesis using q att keep by blast
  qed
  have miss: ?thesis if "fst (execute m w resp) \<noteq> Inr ()"
    using that execute_responses_missing[of "bodies env" w1] unfolding ex same by auto
  from ok miss show ?thesis by blast
qed

theorem execute_correlates_responses_witness:
  "RemotingService_init example_heap 0 example_url 0 0 = Inr example_client \<and>
   requests example_two = [0, 1] \<and> queue_ids example_two = [''/1'', ''/2''] \<and>
   encode (stub_remoting [(''/2'', \<lparr>body = PyInt 20\<rparr>)])
     (getAMFRequest example_two (requests example_two)) = Inr (''/1'' @ CHR 0x0A # ''/2'' @ [CHR 0x0A]) \<and>
   getResponse (stub_remoting [(''/2'', \<lparr>body = PyInt 20\<rparr>)]) (amf_ok []) =
     Inr \<lparr>amfVersion = 0, clientType = 0, bodies = [(''/2'', \<lparr>body = PyInt 20\<rparr>)]\<rparr> \<and>
   fst (execute (stub_remoting [(''/2'', \<lparr>body = PyInt 20\<rparr>)]) example_two (amf_ok [])) = Inr () \<and>
   requests (snd (execute (stub_remoting [(''/2'', \<lparr>body = PyInt 20\<rparr>)]) example_two
                    (amf_ok []))) = [0] \<and>
   get_result (heap (snd (execute (stub_remoting [(''/2'', \<lparr>body = PyInt 20\<rparr>)]) example_two
                            (amf_ok []))) 1) = Inr (PyInt 20) \<and>
   heap (snd (execute (stub_remoting [(''/2'', \<lparr>body = PyInt 20\<rparr>)]) example_two
                (amf_ok []))) 0 = heap example_two 0 \<and>
   getResponse (stub_remoting [(''/9'', \<lparr>body = PyInt 20\<rparr>)]) (amf_ok []) =
     Inr \<lparr>amfVersion = 0, clientType = 0, bodies = [(''/9'', \<lparr>body = PyInt 20\<rparr>)]\<rparr> \<and>
   fst (execute (stub_remoting [(''/9'', \<lparr>body = PyInt 20\<rparr>)]) example_two (amf_ok [])) =
     Inl (LookupError ''request /9 not found'')"
proof -
  let ?m = "stub_remoting [(''/2'', \<lparr>body = PyInt 20\<rparr>)]"
  let ?m9 = "stub_remoting [(''/9'', \<lparr>body = PyInt 20\<rparr>)]"
  let ?env = "\<lparr>amfVersion = 0, clientType = 0, bodies = [(''/2'', \<lparr>body = PyInt 20\<rparr>)]\<rparr>"
  let ?env9 = "\<lparr>amfVersion = 0, clientType = 0, bodies = [(''/9'', \<lparr>body = PyInt 20\<rparr>)]\<rparr>"
  let ?b = "''/1'' @ CHR 0x0A # ''/2'' @ [CHR 0x0A]"
  have q: "requests example_two = [0, 1]" "queue_ids example_two = [''/1'', ''/2'']"
    by (simp_all add: example_two_eval queue_ids_def example_client_def)
  have enc: "encode ?m (getAMFRequest example_two (requests example_two)) = Inr ?b"
    and enc9: "encode ?m9 (getAMFRequest example_two (requests example_two)) = Inr ?b"
    by (simp_all add: example_two_eval getAMFRequest_def Envelope_setitem_def stub_remoting_def
        example_client_def)
  have resp: "getResponse ?m (amf_ok []) = Inr ?env"
    and resp9: "getResponse ?m9 (amf_ok []) = Inr ?env9"
    by (simp_all add: getResponse_def example_defs)
  have ok: "fst (execute ?m example_two (amf_ok [])) = Inr ()"
    by (simp add: example_two_eval client_defs example_defs Let_def)
  have two: "example_two = snd (run m example_client
      [AddRequest (Proxy example_math) [PyInt 1], AddRequest (Proxy example_math) [PyInt 2]])" for m
    by (simp add: example_two_eval)
       (simp add: addRequest_def Let_def RequestWrapper_init_def example_client_def)
  note t = execute_correlates_responses [OF example_client_init two enc resp]
  note t9 = execute_correlates_responses [OF example_client_init two enc9 resp9]
  have ids: "rw_id (heap example_two 0) = ''/1''" "rw_id (heap example_two (Suc 0)) = ''/2''"
    by (simp_all add: example_two_eval example_client_def)
  from t ok have q': "requests (snd (execute ?m example_two (amf_ok []))) = [0]"
    by (simp add: q ids)
  from t ok have "get_result (heap (snd (execute ?m example_two (amf_ok []))) 1) = Inr (PyInt 20)"
    by (simp add: q ids get_result_def setResponse_def set_result_def)
  moreover from t ok have "heap (snd (execute ?m example_two (amf_ok []))) 0 = heap example_two 0"
    by (simp add: q ids)
  moreover from t9 have "\<exists>k. fst (execute ?m9 example_two (amf_ok [])) =
      Inl (LookupError (''request '' @ k @ '' not found''))"
    by (simp add: q)
  then have "fst (execute ?m9 example_two (amf_ok [])) = Inl (LookupError ''request /9 not found'')"
    by (auto simp: example_two_eval client_defs example_defs Let_def)
  ultimately show ?thesis using example_client_init q enc resp ok q' resp9 by blast
qed

subsection \<open>Arguments of a call captured by a proxy\<close>

lemma nested_tuple_neq: "[PyTuple a] \<noteq> a"
proof
  assume "[PyTuple a] = a"
  then have "size_list size [PyTuple a] = size_list size a" by simp
  then show False by simp
qed

lemma find_snoc:
  "find P (xs @ [x]) = (case find P xs of None \<Rightarrow> (if P x then Some x else None) | Some y \<Rightarrow> Some y)"
  by (induction xs) auto

lemma removeRequest_keeps:
  assumes "r \<in> set (requests w)"
    and "\<not> (py_eq (rw_service (heap w r)) x \<and> rw_args (heap w r) = a)"
    and "\<forall>r'. x \<noteq> Wrapper r'"
  shows "r \<in> set (requests (snd (removeRequest w x a)))"
proof (cases "find (\<lambda>r. py_eq (rw_service (heap w r)) x \<and> rw_args (heap w r) = a) (requests w)")
  case None
  then show ?thesis using assms by (cases x) (auto simp: removeRequest_def)
next
  case (Some r')
  then have "r' \<noteq> r" using assms(2) by (auto simp: find_Some_iff)
  then show ?thesis
    using assms(1,3) Some by (cases x) (auto simp: removeRequest_def del_request_requests)
qed

lemma removeRequest_no_match:
  assumes "\<forall>r'. x \<noteq> Wrapper r'"
    and "\<forall>r \<in> set (requests w). \<not> (py_eq (rw_service (heap w r)) x \<and> rw_args (heap w r) = a)"
  shows "removeRequest w x a = (Inl (LookupError ''request not found''), w)"
proof -
  have "find (\<lambda>r. py_eq (rw_service (heap w r)) x \<and> rw_args (heap w r) = a) (requests w) = None"
    using assms(2) by (simp add: find_None_iff)
  then show ?thesis using assms(1) by (cases x) (auto simp: removeRequest_def)
qed

lemma removeRequest_first_match:
  assumes "\<forall>r'. x \<noteq> Wrapper r'"
    and "find (\<lambda>r. py_eq (rw_service (heap w r)) x \<and> rw_args (heap w r) = a) (requests w) = Some r"
  shows "removeRequest w x a = (Inr (), w\<lparr>requests := remove1 r (requests w)\<rparr>)"
proof -
  have "r \<in> set (requests w)" using assms(2) by (auto simp: find_Some_iff)
  then show ?thesis using assms by (cases x) (auto simp: removeRequest_def del_request_in)
qed

lemma getAMFRequest_single:
  "bodies (getAMFRequest w [r]) =
     [(rw_id (heap w r),
       \<lparr>target = py_str w (rw_service (heap w r)), req_body = rw_args (heap w r)\<rparr>)]"
  by (simp add: getAMFRequest_def Envelope_setitem_def)

lemma ServiceProxy_call_heap:
  "heap (snd (ServiceProxy_call m w sp mp args resp)) =
     (heap w)(next_ref w :=
        RequestWrapper_init (''/'' @ fmt_d (request_number w)) (Method mp) [PyTuple args])"
  by (simp add: ServiceProxy_call_def case_prod_beta Let_def split: sum.splits)

lemma ServiceProxy_call_deferred:
  "\<not> sp_auto_execute sp \<Longrightarrow>
     ServiceProxy_call m w sp mp args resp =
       (Inr (Pending (next_ref w)), snd (addRequest w (Method mp) [PyTuple args]))"
  by (simp add: ServiceProxy_call_def case_prod_beta)

text \<open>
  C10, amended. \<^verbatim>\<open>ServiceProxy._call(method_proxy, args)\<close> registers a wrapper whose service is
  the method proxy and whose argument list is the one-element tuple \<^verbatim>\<open>(args,)\<close>, which is
  never \<^verbatim>\<open>args\<close> itself, and the envelope entry built for it carries that nested tuple.
  On a deferred proxy the wrapper is queued. Then it stays queued after
  \<^verbatim>\<open>removeRequest(p, ...)\<close> for every service proxy \<open>p\<close> and every argument list, the proxy
  the call went through and the nested tuple included; after \<^verbatim>\<open>removeRequest(q, ...)\<close> for
  every method proxy \<open>q\<close> and every argument list other than the nested tuple, the flat
  \<^verbatim>\<open>args\<close> included; and after \<^verbatim>\<open>removeRequest(q, args)\<close> with the nested tuple for every
  method proxy that is another object than the one of the call. Each of these calls
  raises \<^verbatim>\<open>LookupError\<close> and changes nothing when no other queued call matches it. Only
  \<^verbatim>\<open>removeRequest(method_proxy, args)\<close> with the method proxy of the call removes the
  wrapper (when no earlier queued call has that method proxy and those arguments).
\<close>

theorem proxy_call_nests_arguments:
  "(let r = next_ref w; w' = snd (ServiceProxy_call m w sp mp args resp)
    in rw_service (heap w' r) = Method mp \<and>
       rw_args (heap w' r) = [PyTuple args] \<and> [PyTuple args] \<noteq> args \<and>
       bodies (getAMFRequest w' [r]) =
         [(''/'' @ fmt_d (request_number w),
           \<lparr>target = ServiceMethodProxy_str mp, req_body = [PyTuple args]\<rparr>)] \<and>
       (\<not> sp_auto_execute sp \<and> (\<forall>r' \<in> set (requests w). r' < next_ref w) \<longrightarrow>
          fst (ServiceProxy_call m w sp mp args resp) = Inr (Pending r) \<and>
          requests w' = requests w @ [r] \<and>
          (\<forall>p a. r \<in> set (requests (snd (removeRequest w' (Proxy p) a)))) \<and>
          (\<forall>q a. a \<noteq> [PyTuple args] \<longrightarrow>
                 r \<in> set (requests (snd (removeRequest w' (Method q) a)))) \<and>
          (\<forall>q. smp_oid q \<noteq> smp_oid mp \<longrightarrow>
               r \<in> set (requests (snd (removeRequest w' (Method q) [PyTuple args])))) \<and>
          (\<forall>p a. (\<forall>r' \<in> set (requests w).
                     \<not> (py_eq (rw_service (heap w r')) (Proxy p) \<and> rw_args (heap w r') = a)) \<longrightarrow>
                 removeRequest w' (Proxy p) a = (Inl (LookupError ''request not found''), w')) \<and>
          (\<forall>q a. a \<noteq> [PyTuple args] \<and>
                 (\<forall>r' \<in> set (requests w).
                     \<not> (py_eq (rw_service (heap w r')) (Method q) \<and> rw_args (heap w r') = a)) \<longrightarrow>
                 removeRequest w' (Method q) a = (Inl (LookupError ''request not found''), w')) \<and>
          (\<forall>q. smp_oid q \<noteq> smp_oid mp \<and>
               (\<forall>r' \<in> set (requests w).
                   \<not> (py_eq (rw_service (heap w r')) (Method q) \<and>
                      rw_args (heap w r') = [PyTuple args])) \<longrightarrow>
               removeRequest w' (Method q) [PyTuple args] =
                 (Inl (LookupError ''request not found''), w')) \<and>
          ((\<forall>r' \<in> set (requests w).
               \<not> (py_eq (rw_service (heap w r')) (Method mp) \<and>
                  rw_args (heap w r') = [PyTuple args])) \<longrightarrow>
             removeRequest w' (Method mp) [PyTuple args] =
               (Inr (), w'\<lparr>requests := requests w\<rparr>))))"
proof -
  define r where "r = next_ref w"
  define w' where "w' = snd (ServiceProxy_call m w sp mp args resp)"
  have hp: "heap w' = (heap w)(r :=
        RequestWrapper_init (''/'' @ fmt_d (request_number w)) (Method mp) [PyTuple args])"
    unfolding w'_def r_def by (rule ServiceProxy_call_heap)
  have svc: "rw_service (heap w' r) = Method mp" and ar: "rw_args (heap w' r) = [PyTuple args]"
    and rid: "rw_id (heap w' r) = ''/'' @ fmt_d (request_number w)"
    by (simp_all add: hp RequestWrapper_init_def)
  have env: "bodies (getAMFRequest w' [r]) =
         [(''/'' @ fmt_d (request_number w),
           \<lparr>target = ServiceMethodProxy_str mp, req_body = [PyTuple args]\<rparr>)]"
    by (simp add: getAMFRequest_single svc ar rid)
  have queued: "fst (ServiceProxy_call m w sp mp args resp) = Inr (Pending r) \<and>
          requests w' = requests w @ [r] \<and>
          (\<forall>p a. r \<in> set (requests (snd (removeRequest w' (Proxy p) a)))) \<and>
          (\<forall>q a. a \<noteq> [PyTuple args] \<longrightarrow>
                 r \<in> set (requests (snd (removeRequest w' (Method q) a)))) \<and>
          (\<forall>q. smp_oid q \<noteq> smp_oid mp \<longrightarrow>
               r \<in> set (requests (snd (removeRequest w' (Method q) [PyTuple args])))) \<and>
          (\<forall>p a. (\<forall>r' \<in> set (requests w).
                     \<not> (py_eq (rw_service (heap w r')) (Proxy p) \<and> rw_args (heap w r') = a)) \<longrightarrow>
                 removeRequest w' (Proxy p) a = (Inl (LookupError ''request not found''), w')) \<and>
          (\<forall>q a. a \<noteq> [PyTuple args] \<and>
                 (\<forall>r' \<in> set (requests w).
                     \<not> (py_eq (rw_service (heap w r')) (Method q) \<and> rw_args (heap w r') = a)) \<longrightarrow>
                 removeRequest w' (Method q) a = (Inl (LookupError ''request not found''), w')) \<and>
          (\<forall>q. smp_oid q \<noteq> smp_oid mp \<and>
               (\<forall>r' \<in> set (requests w).
                   \<not> (py_eq (rw_service (heap w r')) (Method q) \<and>
                      rw_args (heap w r') = [PyTuple args])) \<longrightarrow>
               removeRequest w' (Method q) [PyTuple args] =
                 (Inl (LookupError ''request not found''), w')) \<and>
          ((\<forall>r' \<in> set (requests w).
               \<not> (py_eq (rw_service (heap w r')) (Method mp) \<and>
                  rw_args (heap w r') = [PyTuple args])) \<longrightarrow>
             removeRequest w' (Method mp) [PyTuple args] =
               (Inr (), w'\<lparr>requests := requests w\<rparr>))"
    if d: "\<not> sp_auto_execute sp" and al: "\<forall>r' \<in> set (requests w). r' < r"
  proof -
    have res: "fst (ServiceProxy_call m w sp mp args resp) = Inr (Pending r)"
      and q: "requests w' = requests w @ [r]"
      unfolding w'_def r_def by (simp_all add: ServiceProxy_call_deferred[OF d])
    have rin: "r \<in> set (requests w')" by (simp add: q)
    have fresh: "r \<notin> set (requests w)" using al by auto
    have old: "heap w' r' = heap w r'" if "r' \<in> set (requests w)" for r'
      using that fresh by (auto simp: hp)
    have nopx: "\<not> (py_eq (rw_service (heap w' r)) (Proxy p) \<and> rw_args (heap w' r) = a)" for p a
      by (simp add: svc)
    have noarg: "\<not> (py_eq (rw_service (heap w' r)) (Method q) \<and> rw_args (heap w' r) = a)"
      if "a \<noteq> [PyTuple args]" for q a
      using that by (auto simp: ar)
    have nooid: "\<not> (py_eq (rw_service (heap w' r)) (Method q) \<and>
                     rw_args (heap w' r) = [PyTuple args])"
      if "smp_oid q \<noteq> smp_oid mp" for q
      using that by (auto simp: svc)
    have k1: "r \<in> set (requests (snd (removeRequest w' (Proxy p) a)))" for p a
      by (rule removeRequest_keeps[OF rin nopx]) simp
    have k2: "r \<in> set (requests (snd (removeRequest w' (Method q) a)))"
      if "a \<noteq> [PyTuple args]" for q a
      by (rule removeRequest_keeps[OF rin noarg[OF that]]) simp
    have k3: "r \<in> set (requests (snd (removeRequest w' (Method q) [PyTuple args])))"
      if "smp_oid q \<noteq> smp_oid mp" for q
      by (rule removeRequest_keeps[OF rin nooid[OF that]]) simp
    have none: "removeRequest w' x a = (Inl (LookupError ''request not found''), w')"
      if nw: "\<forall>r'. x \<noteq> Wrapper r'"
        and nr: "\<not> (py_eq (rw_service (heap w' r)) x \<and> rw_args (heap w' r) = a)"
        and no: "\<forall>r' \<in> set (requests w).
                   \<not> (py_eq (rw_service (heap w r')) x \<and> rw_args (heap w r') = a)"
      for x a
    proof (rule removeRequest_no_match[OF nw])
      show "\<forall>r' \<in> set (requests w').
              \<not> (py_eq (rw_service (heap w' r')) x \<and> rw_args (heap w' r') = a)"
      proof
        fix r' assume "r' \<in> set (requests w')"
        then consider "r' = r" | "r' \<in> set (requests w)" unfolding q by auto
        then show "\<not> (py_eq (rw_service (heap w' r')) x \<and> rw_args (heap w' r') = a)"
        proof cases
          case 1
          then show ?thesis using nr by simp
        next
          case 2
          then show ?thesis using no old[OF 2] by simp
        qed
      qed
    qed
    have l1: "removeRequest w' (Proxy p) a = (Inl (LookupError ''request not found''), w')"
      if "\<forall>r' \<in> set (requests w).
            \<not> (py_eq (rw_service (heap w r')) (Proxy p) \<and> rw_args (heap w r') = a)" for p a
      by (rule none[OF _ nopx that]) simp
    have l2: "removeRequest w' (Method q) a = (Inl (LookupError ''request not found''), w')"
      if "a \<noteq> [PyTuple args] \<and> (\<forall>r' \<in> set (requests w).
            \<not> (py_eq (rw_service (heap w r')) (Method q) \<and> rw_args (heap w r') = a))" for q a
      using that none[of "Method q" a] noarg[of a q] by simp
    have l3: "removeRequest w' (Method q) [PyTuple args] =
                (Inl (LookupError ''request not found''), w')"
      if "smp_oid q \<noteq> smp_oid mp \<and> (\<forall>r' \<in> set (requests w).
            \<not> (py_eq (rw_service (heap w r')) (Method q) \<and>
               rw_args (heap w r') = [PyTuple args]))" for q
      using that none[of "Method q" "[PyTuple args]"] nooid[of q] by simp
    have hit: "removeRequest w' (Method mp) [PyTuple args] = (Inr (), w'\<lparr>requests := requests w\<rparr>)"
      if nm: "\<forall>r' \<in> set (requests w).
               \<not> (py_eq (rw_service (heap w r')) (Method mp) \<and>
                  rw_args (heap w r') = [PyTuple args])"
    proof -
      let ?P = "\<lambda>x. py_eq (rw_service (heap w' x)) (Method mp) \<and> rw_args (heap w' x) = [PyTuple args]"
      have "\<not> ?P r'" if "r' \<in> set (requests w)" for r'
        using nm that old[OF that] by simp
      then have "find ?P (requests w) = None" by (simp add: find_None_iff)
      moreover have "?P r" by (simp add: svc ar)
      ultimately have "find ?P (requests w') = Some r"
        unfolding q find_snoc by simp
      from removeRequest_first_match[OF _ this]
      have "removeRequest w' (Method mp) [PyTuple args] =
              (Inr (), w'\<lparr>requests := remove1 r (requests w')\<rparr>)" by simp
      moreover have "remove1 r (requests w') = requests w"
        unfolding q using fresh by (simp add: remove1_append)
      ultimately show ?thesis by simp
    qed
    show ?thesis
      apply (intro conjI allI impI)
      subgoal by (rule res)
      subgoal by (rule q)
      subgoal by (rule k1)
      subgoal by (rule k2)
      subgoal by (rule k3)
      subgoal by (rule l1)
      subgoal by (rule l2)
      subgoal by (rule l3)
      subgoal by (rule hit)
      done
  qed
  show ?thesis
    unfolding Let_def r_def[symmetric] w'_def[symmetric]
    apply (intro conjI)
    subgoal by (rule svc)
    subgoal by (rule ar)
    subgoal by (rule nested_tuple_neq)
    subgoal by (rule env)
    subgoal by (rule impI, elim conjE, rule queued, assumption+)
    done
qed


theorem proxy_call_nests_arguments_witness:
  "(\<not> sp_auto_execute example_math \<and> requests example_bound = [] \<and>
    snd (ServiceProxy_call (stub_remoting []) example_bound example_math example_add
           [PyInt 1, PyInt 2] (amf_ok [])) = example_called \<and>
    rw_args (heap example_called (next_ref example_bound)) = [PyTuple [PyInt 1, PyInt 2]] \<and>
    removeRequest example_called (Proxy example_math) [PyInt 1, PyInt 2] =
      (Inl (LookupError ''request not found''), example_called) \<and>
    removeRequest example_called (Proxy example_math) [PyTuple [PyInt 1, PyInt 2]] =
      (Inl (LookupError ''request not found''), example_called) \<and>
    [PyInt 1, PyInt 2] \<noteq> [PyTuple [PyInt 1, PyInt 2]] \<and>
    removeRequest example_called (Method example_add) [PyInt 1, PyInt 2] =
      (Inl (LookupError ''request not found''), example_called) \<and>
    smp_oid example_sub \<noteq> smp_oid example_add \<and>
    removeRequest example_called (Method example_sub) [PyTuple [PyInt 1, PyInt 2]] =
      (Inl (LookupError ''request not found''), example_called) \<and>
    removeRequest example_called (Method example_add) [PyTuple [PyInt 1, PyInt 2]] =
      (Inr (), example_called\<lparr>requests := []\<rparr>)) \<and>
   (requests (snd (ServiceProxy_getattr example_pending example_math ''sub'')) = [1] \<and>
    next_ref (snd (ServiceProxy_getattr example_pending example_math ''sub'')) = 3 \<and>
    snd (ServiceProxy_call (stub_remoting [])
           (snd (ServiceProxy_getattr example_pending example_math ''sub''))
           example_math example_sub [PyInt 5] (amf_ok [])) = example_pending_called \<and>
    requests example_pending_called = [1, 3] \<and>
    removeRequest example_pending_called (Proxy example_math) [PyTuple [PyInt 5]] =
      (Inl (LookupError ''request not found''), example_pending_called) \<and>
    removeRequest example_pending_called (Proxy example_math) [PyInt 5] =
      (Inl (LookupError ''request not found''), example_pending_called) \<and>
    smp_oid example_add \<noteq> smp_oid example_sub \<and>
    removeRequest example_pending_called (Method example_add) [PyTuple [PyInt 5]] =
      (Inl (LookupError ''request not found''), example_pending_called) \<and>
    3 \<in> set (requests (snd (removeRequest example_pending_called (Proxy example_math)
                                [PyInt 1]))) \<and>
    removeRequest example_pending_called (Method example_sub) [PyTuple [PyInt 5]] =
      (Inr (), example_pending_called\<lparr>requests := [1]\<rparr>))"
proof -
  let ?m = "stub_remoting []"
  let ?w2 = "snd (ServiceProxy_getattr example_pending example_math ''sub'')"
  let ?no = "Inl (LookupError ''request not found'') :: error + unit"
  have d: "\<not> sp_auto_execute example_math" by (simp add: example_math_def)
  have oid: "smp_oid example_sub \<noteq> smp_oid example_add" "smp_oid example_add \<noteq> smp_oid example_sub"
    by (simp_all add: example_sub_def example_add_def)
  have b: "requests example_bound = []" "next_ref example_bound = 2"
    by (simp_all add: example_bound_eval example_client_def)
  have c1: "snd (ServiceProxy_call ?m example_bound example_math example_add
                   [PyInt 1, PyInt 2] (amf_ok [])) = example_called"
    by (simp add: example_called_def ServiceMethodProxy_invoke_def example_add_def)
  note t1 = proxy_call_nests_arguments [where w = example_bound and m = ?m
      and sp = example_math and mp = example_add and args = "[PyInt 1, PyInt 2]"
      and resp = "amf_ok []", unfolded Let_def c1]
  from t1 have a1: "rw_args (heap example_called (next_ref example_bound)) =
      [PyTuple [PyInt 1, PyInt 2]]" by (rule conjunct2[THEN conjunct1])
  from t1 d b have q1: "\<forall>p a. removeRequest example_called (Proxy p) a = (?no, example_called)"
    and q2: "\<forall>q a. a \<noteq> [PyTuple [PyInt 1, PyInt 2]] \<longrightarrow>
                removeRequest example_called (Method q) a = (?no, example_called)"
    and q3: "\<forall>q. smp_oid q \<noteq> smp_oid example_add \<longrightarrow>
                removeRequest example_called (Method q) [PyTuple [PyInt 1, PyInt 2]] =
                  (?no, example_called)"
    and a5: "removeRequest example_called (Method example_add)
      [PyTuple [PyInt 1, PyInt 2]] = (Inr (), example_called\<lparr>requests := []\<rparr>)"
    by simp_all
  have ne: "[PyInt 1, PyInt 2] \<noteq> [PyTuple [PyInt 1, PyInt 2]]" by simp
  have a2: "removeRequest example_called (Proxy example_math) [PyInt 1, PyInt 2] =
      (?no, example_called)"
    and a2': "removeRequest example_called (Proxy example_math) [PyTuple [PyInt 1, PyInt 2]] =
      (?no, example_called)"
    using q1 by blast+
  have a3: "removeRequest example_called (Method example_add) [PyInt 1, PyInt 2] =
      (?no, example_called)"
    using q2 ne by blast
  have a4: "removeRequest example_called (Method example_sub) [PyTuple [PyInt 1, PyInt 2]] =
      (?no, example_called)"
    using q3 oid(1) by blast
  have w2: "requests ?w2 = [1]" "next_ref ?w2 = 3"
    by (simp_all add: ServiceProxy_getattr_def example_pending_eval example_client_def)
  have h2: "heap ?w2 (Suc 0) = \<lparr>rw_id = ''/1'', rw_service = Proxy example_math,
                rw_args = [PyInt 1], rw_response = None, rw_result = None\<rparr>"
    by (simp add: ServiceProxy_getattr_def example_pending_eval example_client_def)
  have c2: "snd (ServiceProxy_call ?m ?w2 example_math example_sub [PyInt 5] (amf_ok [])) =
      example_pending_called"
    by (simp add: example_pending_called_def ServiceMethodProxy_invoke_def example_sub_def)
  note t2 = proxy_call_nests_arguments [where w = ?w2 and m = ?m
      and sp = example_math and mp = example_sub and args = "[PyInt 5]"
      and resp = "amf_ok []", unfolded Let_def c2]
  have pre: "\<not> sp_auto_execute example_math \<and> (\<forall>r' \<in> set (requests ?w2). r' < next_ref ?w2)"
    using d w2 by simp
  note u2 = t2[THEN conjunct2, THEN conjunct2, THEN conjunct2, THEN conjunct2, THEN mp, OF pre]
  from u2 w2 have rq: "requests example_pending_called = [1, 3]" by simp
  from u2 have k: "\<forall>p a. next_ref ?w2 \<in> set (requests (snd (removeRequest
      example_pending_called (Proxy p) a)))" by blast
  then have b1: "3 \<in> set (requests (snd (removeRequest example_pending_called
      (Proxy example_math) [PyInt 1])))" unfolding w2 by blast
  from u2 have l1: "\<forall>p a. (\<forall>r' \<in> set (requests ?w2).
        \<not> (py_eq (rw_service (heap ?w2 r')) (Proxy p) \<and> rw_args (heap ?w2 r') = a)) \<longrightarrow>
        removeRequest example_pending_called (Proxy p) a = (?no, example_pending_called)"
    by blast
  have b2: "removeRequest example_pending_called (Proxy example_math) [PyTuple [PyInt 5]] =
      (?no, example_pending_called)"
    and b2': "removeRequest example_pending_called (Proxy example_math) [PyInt 5] =
      (?no, example_pending_called)"
    using l1[rule_format, of example_math "[PyTuple [PyInt 5]]"]
          l1[rule_format, of example_math "[PyInt 5]"] by (simp_all add: w2 h2)
  from u2 have l3: "\<forall>q. smp_oid q \<noteq> smp_oid example_sub \<and> (\<forall>r' \<in> set (requests ?w2).
        \<not> (py_eq (rw_service (heap ?w2 r')) (Method q) \<and>
           rw_args (heap ?w2 r') = [PyTuple [PyInt 5]])) \<longrightarrow>
        removeRequest example_pending_called (Method q) [PyTuple [PyInt 5]] =
          (?no, example_pending_called)"
    by blast
  have b3: "removeRequest example_pending_called (Method example_add) [PyTuple [PyInt 5]] =
      (?no, example_pending_called)"
    using l3[rule_format, of example_add] oid(2) by (simp add: w2 h2)
  from u2 have hit: "(\<forall>r' \<in> set (requests ?w2).
        \<not> (py_eq (rw_service (heap ?w2 r')) (Method example_sub) \<and>
           rw_args (heap ?w2 r') = [PyTuple [PyInt 5]])) \<longrightarrow>
        removeRequest example_pending_called (Method example_sub) [PyTuple [PyInt 5]] =
          (Inr (), example_pending_called\<lparr>requests := requests ?w2\<rparr>)"
    by blast
  have b4: "removeRequest example_pending_called (Method example_sub)
      [PyTuple [PyInt 5]] = (Inr (), example_pending_called\<lparr>requests := [1]\<rparr>)"
    using hit by (simp add: w2 h2)
  show ?thesis
    apply (intro conjI)
    subgoal by (rule d)
    subgoal by (rule b(1))
    subgoal by (rule c1)
    subgoal by (rule a1)
    subgoal by (rule a2)
    subgoal by (rule a2')
    subgoal by (rule ne)
    subgoal by (rule a3)
    subgoal by (rule oid(1))
    subgoal by (rule a4)
    subgoal by (rule a5)
    subgoal by (rule w2(1))
    subgoal by (rule w2(2))
    subgoal by (rule c2)
    subgoal by (rule rq)
    subgoal by (rule b2)
    subgoal by (rule b2')
    subgoal by (rule oid(2))
    subgoal by (rule b3)
    subgoal by (rule b1)
    subgoal by (rule b4)
    done
qed

text \<open>
  C10 fails as stated: after the deferred call \<^verbatim>\<open>math.add(1, 2)\<close>,
  \<^verbatim>\<open>removeRequest(math, (1, 2))\<close> with the service proxy finds no match and raises
  \<^verbatim>\<open>LookupError\<close>, and the call stays queued.
\<close>

theorem cancel_with_service_proxy_finds_no_match:
  "fst (getService example_client (PyStr ''math'') False) = Inr example_math \<and>
   ServiceProxy_getattr example_started example_math ''add'' = (example_add, example_bound) \<and>
   fst (ServiceMethodProxy_invoke (stub_remoting []) example_bound example_add
          [PyInt 1, PyInt 2] (amf_ok [])) = Inr (Pending 2) \<and>
   requests example_called = [2] \<and>
   rw_args (heap example_called 2) = [PyTuple [PyInt 1, PyInt 2]] \<and>
   removeRequest example_called (Proxy example_math) [PyTuple [PyInt 1, PyInt 2]] =
     (Inl (LookupError ''request not found''), example_called)"
proof -
  have "fst (ServiceMethodProxy_invoke (stub_remoting []) example_bound example_add
          [PyInt 1, PyInt 2] (amf_ok [])) = Inr (Pending 2)"
    by (simp add: example_bound_eval ServiceMethodProxy_invoke_def ServiceProxy_call_def
        example_add_def example_math_def addRequest_def Let_def example_client_def)
  moreover have "requests example_called = [2]"
    "rw_args (heap example_called 2) = [PyTuple [PyInt 1, PyInt 2]]"
    by (simp_all add: example_called_eval example_client_def)
  moreover have "removeRequest example_called (Proxy example_math) [PyTuple [PyInt 1, PyInt 2]] =
     (Inl (LookupError ''request not found''), example_called)"
    by (simp add: example_called_eval removeRequest_def example_client_def example_math_def)
  ultimately show ?thesis using example_started_eval(1) example_bound_eval(1) by blast
qed

end
